theory Spec2Isabelle
  imports Main "HOL-Library.Word"
begin

unbundle bit_operations_syntax

section \<open>Lifecycle daemon: socket transport (src/comm/comm_handler.cpp)\<close>

type_synonym byte = "8 word"

text \<open>
  \<^verbatim>\<open>constexpr uint32_t DEFAULT_MAX_MSG_SIZE = 1 * 1024 * 1024;\<close> and
  \<^verbatim>\<open>constexpr const int BUFFER_SIZE = 4096;\<close>
\<close>

definition DEFAULT_MAX_MSG_SIZE :: nat where
  "DEFAULT_MAX_MSG_SIZE = 1 * 1024 * 1024"

definition BUFFER_SIZE :: nat where
  "BUFFER_SIZE = 4096"

text \<open>
  The connection context. Only \<open>data_socket\<close> matters to the transport functions;
  \<open>-1\<close> means that no client is connected.
\<close>

record comm_ctx =
  data_socket :: int

definition disconnect :: "comm_ctx \<Rightarrow> comm_ctx" where
  "disconnect ctx = ctx\<lparr>data_socket := -1\<rparr>"

text \<open>
  \<open>comm::uint32_to_bytes\<close> stores the four bytes of \<open>x\<close> into \<open>dest[0..3]\<close>, most
  significant byte first. \<open>dest\<close> is the caller's buffer; the cells the function does
  not assign keep what they held.
\<close>

definition uint32_to_bytes :: "byte list \<Rightarrow> 32 word \<Rightarrow> byte list" where
  "uint32_to_bytes dest x =
     dest[0 := ucast (drop_bit 24 x AND 0xff),
          1 := ucast (drop_bit 16 x AND 0xff),
          2 := ucast (drop_bit 8 x AND 0xff),
          3 := ucast (drop_bit 0 x AND 0xff)]"

text \<open>
  What \<open>comm::send\<close> puts on the socket: the header buffer, then the message body.
\<close>

datatype wrote = Header "byte list" | Body string

text \<open>
  \<open>comm::send\<close>. The local array \<^verbatim>\<open>uint8_t length_buffer[8]\<close> has no initialiser, so
  its first contents are whatever the stack holds: the parameter \<open>stack\<close> (eight
  bytes). \<open>message.length()\<close> is a \<open>size_t\<close> passed to a \<open>uint32_t\<close> parameter, which
  is \<open>of_nat\<close> into \<open>32 word\<close>. The two \<open>write\<close> calls can fail (\<open>-1\<close>); their outcome
  is given by \<open>w1\<close> and \<open>w2\<close>. The result is the return code, the context and the
  chunks written.
\<close>

definition send :: "byte list \<Rightarrow> bool \<Rightarrow> bool \<Rightarrow> comm_ctx \<Rightarrow> string \<Rightarrow> int \<times> comm_ctx \<times> wrote list" where
  "send stack w1 w2 ctx message =
     (if data_socket ctx = -1 then (-1, ctx, [])
      else
        let length_buffer = uint32_to_bytes stack (of_nat (length message)) in
        if \<not> w1 then (-1, disconnect ctx, [])
        else if \<not> w2 then (-1, disconnect ctx, [Header length_buffer])
        else (0, disconnect ctx, [Header length_buffer, Body message]))"

text \<open>
  What the kernel hands to \<open>read\<close> on the sequenced-packet socket: an error, or the
  next packet. A packet longer than the count given to \<open>read\<close> is cut to that count and
  the rest of it is discarded.
\<close>

datatype recv = RecvError | Packet string

text \<open>
  \<open>comm::read_socket\<close>: one \<open>read\<close> of at most \<open>BUFFER_SIZE\<close> bytes into the global
  \<open>read_buffer\<close>. Returns the byte count (or \<open>-1\<close>) and the buffer.
\<close>

definition read_socket :: "recv \<Rightarrow> string \<Rightarrow> int \<times> string" where
  "read_socket r read_buffer =
     (case r of
        RecvError \<Rightarrow> (-1, read_buffer)
      | Packet p \<Rightarrow>
          (int (min (length p) BUFFER_SIZE),
           take BUFFER_SIZE p @ drop (min (length p) BUFFER_SIZE) read_buffer))"

text \<open>
  The view \<open>comm::handle_message\<close> parses:
  \<^verbatim>\<open>std::string_view msg((char *)read_buffer.data(), message_size)\<close>.
\<close>

definition message_view :: "int \<times> string \<Rightarrow> string" where
  "message_view r = take (nat (fst r)) (snd r)"

text \<open>A request of 4097 bytes: a JSON object padded with blanks before its closing brace.\<close>

definition long_request :: string where
  "long_request = CHR ''{'' # CHR 0x22 # ''type'' @ CHR 0x22 # CHR '':'' # CHR 0x22 # ''list'' @ [CHR 0x22]
      @ replicate 4082 CHR '' '' @ ''}''"

section \<open>Lifecycle daemon: instances and ports (src/hp_manager.cpp, hp_manager.hpp)\<close>

text \<open>\<^verbatim>\<open>struct ports\<close>: four \<open>uint16_t\<close> fields, compared field by field.\<close>

record ports =
  peer_port :: "16 word"
  user_port :: "16 word"
  gp_tcp_port_start :: "16 word"
  gp_udp_port_start :: "16 word"

text \<open>\<^verbatim>\<open>struct instance_info\<close>.\<close>

record instance_info =
  owner_pubkey :: string
  container_name :: string
  contract_dir :: string
  ip :: string
  pubkey :: string
  contract_id :: string
  assigned_ports :: ports
  status :: string
  username :: string
  image_name :: string

text \<open>The error codes of \<open>create_new_instance\<close> and \<open>destroy_container\<close>.\<close>

datatype hp_error =
    INSTANCE_ALREADY_EXISTS | DB_READ_ERROR | MAX_ALLOCATION_REACHED | CONTRACT_ID_INVALID
  | USER_INSTALL_ERROR | INSTANCE_ERROR | DB_WRITE_ERROR | NO_CONTAINER | USER_UNINSTALL_ERROR

text \<open>
  The scripts and docker commands the daemon runs, in the order it runs them: the
  install and uninstall scripts, the contract directory set-up, \<open>docker create\<close> and
  \<open>docker rm -f\<close>.
\<close>

datatype command =
    InstallUser string ports
  | UninstallUser string ports string
  | CreateContract string string
  | DockerCreate string string
  | DockerRemove string string

text \<open>
  The globals of namespace \<open>hp\<close> that the two operations touch, the \<open>instances\<close> table
  behind the handle \<open>db\<close>, and the commands run so far.
\<close>

record hp_state =
  last_assigned_ports :: ports
  last_port_assign_from_vacant :: bool
  vacant_ports :: "ports list"
  db :: "instance_info list"
  commands :: "command list"

text \<open>The fields of \<open>conf::cfg\<close> read here; \<open>get_user_contract_dir\<close> is \<open>util\<close>'s.\<close>

record hp_conf =
  max_instance_count :: nat
  init_peer_port :: "16 word"
  init_gp_tcp_port :: "16 word"
  init_gp_udp_port :: "16 word"
  host_address :: string
  get_user_contract_dir :: "string \<Rightarrow> string \<Rightarrow> string"

text \<open>
  What the world answers during one request: whether the database calls succeed,
  whether the contract id is a uuid (\<open>crypto::verify_uuid\<close>), the tuple that
  \<open>sqlite::get_max_ports\<close> stores into its out-parameter, the user name printed by the
  install script (\<open>None\<close> when \<open>install_user\<close> returns \<open>-1\<close>), the hex public key
  generated by \<open>create_contract\<close> (\<open>None\<close> when it returns \<open>-1\<close>), and the results of
  \<open>create_container\<close>, \<open>uninstall_user\<close> and \<open>docker_remove\<close>.
\<close>

record hp_env =
  count_ok :: bool
  uuid_ok :: bool
  max_ports :: ports
  install_user_res :: "string option"
  create_contract_res :: "string option"
  create_container_ok :: bool
  insert_row_ok :: bool
  uninstall_user_ok :: bool
  docker_remove_ok :: bool
  delete_row_ok :: bool

text \<open>
  Modelled from the spec: the bodies of \<open>sqlite::get_instance\<close>,
  \<open>sqlite::is_container_exists\<close>, \<open>sqlite::get_allocated_instance_count\<close>,
  \<open>sqlite::insert_hp_instance_row\<close> and \<open>sqlite::delete_hp_instance\<close> (sqlite.cpp). The
  table is keyed by \<open>container_name\<close>; lookups and the count skip rows whose status is
  \<open>destroyed\<close>; the delete is a hard delete.
\<close>

definition get_instance :: "instance_info list \<Rightarrow> string \<Rightarrow> instance_info option" where
  "get_instance rows name =
     find (\<lambda>r. container_name r = name \<and> status r \<noteq> ''destroyed'') rows"

definition is_container_exists :: "instance_info list \<Rightarrow> string \<Rightarrow> instance_info option" where
  "is_container_exists rows name =
     find (\<lambda>r. container_name r = name \<and> status r \<noteq> ''destroyed'') rows"

definition get_allocated_instance_count :: "instance_info list \<Rightarrow> nat" where
  "get_allocated_instance_count rows = length (filter (\<lambda>r. status r \<noteq> ''destroyed'') rows)"

definition insert_hp_instance_row :: "instance_info list \<Rightarrow> instance_info \<Rightarrow> instance_info list" where
  "insert_hp_instance_row rows info = rows @ [info]"

definition delete_hp_instance :: "instance_info list \<Rightarrow> string \<Rightarrow> instance_info list" where
  "delete_hp_instance rows name = filter (\<lambda>r. container_name r \<noteq> name) rows"

text \<open>
  Lines 199 to 202 of \<open>create_new_instance\<close>: the image name is cut at the first
  \<open>--\<close>.
\<close>

fun strip_image_suffix :: "string \<Rightarrow> string" where
  "strip_image_suffix (a # b # cs) =
     (if a = CHR ''-'' \<and> b = CHR ''-'' then [] else a # strip_image_suffix (b # cs))"
| "strip_image_suffix cs = cs"

text \<open>
  Lines 170 to 185: the port tuple of the new instance. With a vacant tuple the last
  one of the vector is taken (and stays in the vector for now). Otherwise, when the
  previous assignment came from the vector, \<open>last_assigned_ports\<close> is first reloaded
  with \<open>sqlite::get_max_ports\<close>; the new tuple is \<open>last_assigned_ports\<close> plus
  \<open>(1, 1, 2, 2)\<close>, each sum cast to \<open>uint16_t\<close>.
\<close>

definition next_ports :: "ports \<Rightarrow> ports" where
  "next_ports p =
     \<lparr>peer_port = peer_port p + 1, user_port = user_port p + 1,
      gp_tcp_port_start = gp_tcp_port_start p + 2, gp_udp_port_start = gp_udp_port_start p + 2\<rparr>"

definition select_ports :: "hp_env \<Rightarrow> hp_state \<Rightarrow> ports \<times> hp_state" where
  "select_ports env s =
     (if vacant_ports s \<noteq> [] then
        (last (vacant_ports s), s\<lparr>last_port_assign_from_vacant := True\<rparr>)
      else
        let s1 = (if last_port_assign_from_vacant s
                  then s\<lparr>last_assigned_ports := max_ports env, last_port_assign_from_vacant := False\<rparr>
                  else s)
        in (next_ports (last_assigned_ports s1), s1))"

definition run :: "command \<Rightarrow> hp_state \<Rightarrow> hp_state" where
  "run c s = s\<lparr>commands := commands s @ [c]\<rparr>"

text \<open>
  \<open>hp::create_new_instance\<close>. The result is the error code or the populated
  \<open>instance_info\<close>, and the state afterwards.
\<close>

definition create_new_instance ::
  "hp_conf \<Rightarrow> hp_env \<Rightarrow> hp_state \<Rightarrow> string \<Rightarrow> string \<Rightarrow> string \<Rightarrow> string
     \<Rightarrow> (hp_error + instance_info) \<times> hp_state" where
  "create_new_instance cfg env s name owner cid image_key =
     (if get_instance (db s) name \<noteq> None then (Inl INSTANCE_ALREADY_EXISTS, s)
      else if \<not> count_ok env then (Inl DB_READ_ERROR, s)
      else if get_allocated_instance_count (db s) \<ge> max_instance_count cfg
        then (Inl MAX_ALLOCATION_REACHED, s)
      else if \<not> uuid_ok env then (Inl CONTRACT_ID_INVALID, s)
      else
        let (instance_ports, s1) = select_ports env s;
            s2 = run (InstallUser name instance_ports) s1
        in case install_user_res env of
             None \<Rightarrow> (Inl USER_INSTALL_ERROR, s2)
           | Some uname \<Rightarrow>
               let dir = get_user_contract_dir cfg uname name;
                   img = strip_image_suffix image_key;
                   s3 = run (CreateContract uname dir) s2
               in (case create_contract_res env of
                    None \<Rightarrow>
                      (Inl INSTANCE_ERROR, run (UninstallUser uname instance_ports name) s3)
                  | Some pubkey_hex \<Rightarrow>
                      let s4 = run (DockerCreate uname name) s3 in
                      if \<not> create_container_ok env then
                        (Inl INSTANCE_ERROR, run (UninstallUser uname instance_ports name) s4)
                      else
                        let info = \<lparr>owner_pubkey = owner, container_name = name,
                                    contract_dir = dir, ip = host_address cfg,
                                    pubkey = pubkey_hex, contract_id = cid,
                                    assigned_ports = instance_ports, status = ''created'',
                                    username = uname, image_name = img\<rparr>
                        in if \<not> insert_row_ok env then
                             (Inl DB_WRITE_ERROR,
                              run (UninstallUser uname instance_ports name)
                                (run (DockerRemove uname name) s4))
                           else
                             let s5 = s4\<lparr>db := insert_hp_instance_row (db s4) info\<rparr> in
                             (Inr info,
                              if last_port_assign_from_vacant s5
                              then s5\<lparr>vacant_ports := butlast (vacant_ports s5)\<rparr>
                              else s5\<lparr>last_assigned_ports := instance_ports\<rparr>)))"

text \<open>
  \<open>hp::destroy_container\<close>. The tuple pushed for an instance whose
  \<open>gp_tcp_port_start\<close> is \<open>0\<close> is the aggregate
  \<^verbatim>\<open>{user_port, peer_port, gp_tcp_port_start, gp_udp_port_start}\<close>, whose members
  initialise the fields of \<open>ports\<close> in declaration order.
\<close>

definition destroy_container ::
  "hp_conf \<Rightarrow> hp_env \<Rightarrow> hp_state \<Rightarrow> string \<Rightarrow> (hp_error + unit) \<times> hp_state" where
  "destroy_container cfg env s name =
     (case is_container_exists (db s) name of
        None \<Rightarrow> (Inl NO_CONTAINER, s)
      | Some info \<Rightarrow>
          let p = assigned_ports info;
              s1 = run (UninstallUser (username info) p name) s
          in if \<not> uninstall_user_ok env then (Inl USER_UNINSTALL_ERROR, s1)
             else if \<not> delete_row_ok env then (Inl USER_UNINSTALL_ERROR, s1)
             else
               let s2 = s1\<lparr>db := delete_hp_instance (db s1) name\<rparr> in
               if p \<notin> set (vacant_ports s2) then
                 if gp_tcp_port_start p = 0 then
                   let increment = (peer_port p - init_peer_port cfg) * 2;
                       gp_tcp = init_gp_tcp_port cfg + increment;
                       gp_udp = init_gp_udp_port cfg + increment
                   in (Inr (), s2\<lparr>vacant_ports := vacant_ports s2 @
                         [\<lparr>peer_port = user_port p, user_port = peer_port p,
                           gp_tcp_port_start = gp_tcp, gp_udp_port_start = gp_udp\<rparr>]\<rparr>)
                 else (Inr (), s2\<lparr>vacant_ports := vacant_ports s2 @ [p]\<rparr>)
               else (Inr (), s2))"

subsection \<open>Concrete daemon states\<close>

text \<open>
  A configuration with the initial ports of scenario S1, a world in which every step
  succeeds, and the states used below: one instance \<open>T1\<close> on the first tuple
  (\<open>s_one\<close>), the same after its destroy (\<open>s_destroyed\<close>) and after the create that
  follows (\<open>s_recreated\<close>); the daemon just started with nothing stored (\<open>s_start\<close>)
  and after its first create (\<open>s_first\<close>); an instance \<open>T2\<close> stored by a version without
  general-purpose ports, whose two such columns are \<open>0\<close> (\<open>s_legacy\<close>); and the states
  after a create that failed at \<open>docker create\<close> (\<open>s_failed\<close>) and at the insert
  (\<open>s_unwritten\<close>).
\<close>

definition cfg0 :: hp_conf where
  "cfg0 = \<lparr>max_instance_count = 3, init_peer_port = 22861, init_gp_tcp_port = 36525,
           init_gp_udp_port = 39064, host_address = ''host.example'',
           get_user_contract_dir = (\<lambda>u n. ''/home/'' @ u @ ''/'' @ n)\<rparr>"

definition env_ok :: hp_env where
  "env_ok = \<lparr>count_ok = True, uuid_ok = True,
             max_ports = \<lparr>peer_port = 22860, user_port = 26200, gp_tcp_port_start = 36523, gp_udp_port_start = 39062\<rparr>,
             install_user_res = Some ''sashi2'', create_contract_res = Some ''ed01'',
             create_container_ok = True, insert_row_ok = True, uninstall_user_ok = True,
             docker_remove_ok = True, delete_row_ok = True\<rparr>"

definition p1 :: ports where
  "p1 = \<lparr>peer_port = 22861, user_port = 26201, gp_tcp_port_start = 36525, gp_udp_port_start = 39064\<rparr>"

definition row1 :: instance_info where
  "row1 = \<lparr>owner_pubkey = ''ed99'', container_name = ''T1'', contract_dir = ''/home/sashi1/T1'',
           ip = ''host.example'', pubkey = ''ed00'', contract_id = ''c1'', assigned_ports = p1,
           status = ''running'', username = ''sashi1'', image_name = ''img''\<rparr>"

definition row2 :: instance_info where
  "row2 = \<lparr>owner_pubkey = ''ed99'', container_name = ''T1'', contract_dir = ''/home/sashi2/T1'',
           ip = ''host.example'', pubkey = ''ed01'', contract_id = ''c2'', assigned_ports = p1,
           status = ''created'', username = ''sashi2'', image_name = ''img''\<rparr>"

definition s_one :: hp_state where
  "s_one = \<lparr>last_assigned_ports = p1, last_port_assign_from_vacant = False, vacant_ports = [],
            db = [row1], commands = []\<rparr>"

definition s_destroyed :: hp_state where
  "s_destroyed = \<lparr>last_assigned_ports = p1, last_port_assign_from_vacant = False, vacant_ports = [p1],
            db = [], commands = [UninstallUser ''sashi1'' p1 ''T1'']\<rparr>"

definition s_recreated :: hp_state where
  "s_recreated = \<lparr>last_assigned_ports = p1, last_port_assign_from_vacant = True, vacant_ports = [],
            db = [row2],
            commands = [UninstallUser ''sashi1'' p1 ''T1'', InstallUser ''T1'' p1,
                        CreateContract ''sashi2'' ''/home/sashi2/T1'', DockerCreate ''sashi2'' ''T1'']\<rparr>"

definition s_start :: hp_state where
  "s_start = \<lparr>last_assigned_ports = \<lparr>peer_port = 0, user_port = 0, gp_tcp_port_start = 0, gp_udp_port_start = 0\<rparr>,
              last_port_assign_from_vacant = True, vacant_ports = [], db = [], commands = []\<rparr>"

definition s_first :: hp_state where
  "s_first = \<lparr>last_assigned_ports = p1, last_port_assign_from_vacant = False, vacant_ports = [],
            db = [row2],
            commands = [InstallUser ''T1'' p1,
                        CreateContract ''sashi2'' ''/home/sashi2/T1'', DockerCreate ''sashi2'' ''T1'']\<rparr>"

definition p_legacy :: ports where
  "p_legacy = \<lparr>peer_port = 22862, user_port = 26202, gp_tcp_port_start = 0, gp_udp_port_start = 0\<rparr>"

definition s_legacy :: hp_state where
  "s_legacy = \<lparr>last_assigned_ports = p1, last_port_assign_from_vacant = False, vacant_ports = [],
               db = [row1\<lparr>container_name := ''T2'', assigned_ports := p_legacy\<rparr>], commands = []\<rparr>"

definition s_failed :: hp_state where
  "s_failed = \<lparr>last_assigned_ports = max_ports env_ok, last_port_assign_from_vacant = False,
               vacant_ports = [], db = [],
               commands = [InstallUser ''T1'' p1, CreateContract ''sashi2'' ''/home/sashi2/T1'',
                           DockerCreate ''sashi2'' ''T1'', UninstallUser ''sashi2'' p1 ''T1'']\<rparr>"

definition s_unwritten :: hp_state where
  "s_unwritten = \<lparr>last_assigned_ports = p1, last_port_assign_from_vacant = True,
               vacant_ports = [p1], db = [],
               commands = [UninstallUser ''sashi1'' p1 ''T1'', InstallUser ''T1'' p1,
                           CreateContract ''sashi2'' ''/home/sashi2/T1'',
                           DockerCreate ''sashi2'' ''T1'', DockerRemove ''sashi2'' ''T1'',
                           UninstallUser ''sashi2'' p1 ''T1'']\<rparr>"

section \<open>Message board: data (mb-xrpl message-board.js, appenv.js)\<close>

text \<open>\<^verbatim>\<open>const LeaseStatus = { ACQUIRING: 'Acquiring', ... }\<close>\<close>

datatype LeaseStatus = ACQUIRING | ACQUIRED | FAILED | DESTROYED | BURNED | SASHI_TIMEOUT | EXTENDED

text \<open>
  A row of the \<open>leases\<close> table (\<open>createLeaseTableIfNotExists\<close>). The columns
  \<open>container_name\<close> and \<open>status\<close> carry the prefix \<open>lease_\<close> here, the plain names
  being fields of \<open>instance_info\<close>.
\<close>

record lease =
  timestamp :: int
  tx_hash :: string
  tenant_xrp_address :: string
  life_moments :: int
  lease_container_name :: string
  created_on_ledger :: "int option"
  lease_status :: LeaseStatus

text \<open>
  A lease token as \<open>hostClient.getLeaseByIndex\<close> returns it, together with the fields
  that \<open>decodeLeaseTokenUri\<close> reads from its \<open>URI\<close>. Amounts are integers: the
  JavaScript numbers of the source are exact on them.
\<close>

record outbound_ip =
  family :: int
  ip_address :: string

record uri_token =
  token_index :: string
  Owner :: string
  leaseIndex :: int
  leaseAmount :: int
  outboundIP :: "outbound_ip option"

text \<open>
  Values that are thrown. A thrown string has neither \<open>type\<close>, \<open>content\<close> nor
  \<open>status\<close>; an error of the sashi cli has a \<open>type\<close> and a \<open>content\<close>, which is a
  string or an object with an \<open>instance_name\<close>; a failed ledger submission has a
  \<open>status\<close>; reading a property of \<open>undefined\<close> throws a \<open>TypeError\<close>.
\<close>

datatype content = Undefined | Str string | Obj string

datatype exn = Message string | CliError string content | SubmitError string | TypeError

definition e_type :: "exn \<Rightarrow> string option" where
  "e_type e = (case e of CliError t c \<Rightarrow> Some t | _ \<Rightarrow> None)"

definition e_content :: "exn \<Rightarrow> content" where
  "e_content e = (case e of CliError t c \<Rightarrow> c | _ \<Rightarrow> Undefined)"

definition e_status :: "exn \<Rightarrow> string option" where
  "e_status e = (case e of SubmitError st \<Rightarrow> Some st | _ \<Rightarrow> None)"

text \<open>\<open>e.content || fallback\<close>: the fallback replaces \<open>undefined\<close> and the empty string.\<close>

definition content_or :: "exn \<Rightarrow> string \<Rightarrow> content" where
  "content_or e fallback =
     (case e_content e of Undefined \<Rightarrow> Str fallback
      | Str t \<Rightarrow> (if t = [] then Str fallback else Str t)
      | Obj n \<Rightarrow> Obj n)"

text \<open>The \<open>content\<close> of the daemon's answer to a create request, as far as it is read.\<close>

record create_res =
  res_name :: string
  res_ip :: string

text \<open>Requests sent to the daemon through the sashi cli.\<close>

datatype cli_call = CliCreate string string string | CliDestroy "string option"

text \<open>The host client's calls that submit a transaction to the ledger.\<close>

datatype ledger_tx =
    UpdateRegInfo int
  | ExpireLease string
  | OfferLease int int "string option"
  | AcquireSuccess string string string string "string option" "string option"
  | AcquireError string string int content
  | ExtendSuccess string string int
  | ExtendError string string content int
  | RefundTenant string string int

text \<open>
  The closures handed to \<open>#queueAction\<close>, one constructor for each of them, with the
  variables the closure captures: line 679 (\<open>#expireInstance\<close>), lines 895, 959 and
  994 (\<open>#pruneOrphanLeases\<close>), line 1229 (\<open>recreateLeaseOffer\<close>), lines 1368 and 1428
  (\<open>handleAcquireLease\<close>), lines 1519 and 1537 (\<open>handleExtendLease\<close>).
\<close>

datatype callback =
    ExpireInstanceCb
  | PruneInstanceRefundCb string string int
  | PruneLeaseRefundCb LeaseStatus string string int
  | PruneRegInfoCb int
  | RecreateLeaseOfferCb string int "string option" bool
  | AcquireSuccessCb string string create_res "outbound_ip option" "string option" int int
  | AcquireErrorCb string string int exn
  | ExtendSuccessCb string string int
  | ExtendErrorCb string string exn int

text \<open>
  An entry of \<open>#concurrencyQueue.queue\<close>. \<open>submissionRefs\<close> is the list
  \<open>submissionRefs.refs\<close>, each cell holding the transaction hash the host client
  recorded in it, if any; the fresh object \<open>{}\<close>, whose \<open>refs\<close> is undefined, is
  \<open>[]\<close>.
\<close>

record action =
  callback :: callback
  submissionRefs :: "string option list"
  attempts :: nat
  maxAttempts :: nat
  delay :: nat

record expiry_item =
  txHash :: string
  containerName :: string
  tenant :: string
  expiryTimestamp :: int

text \<open>A row of the daemon's \<open>instances\<close> table as the pruner reads it.\<close>

record sashi_instance =
  inst_name :: string
  inst_time :: int

text \<open>
  The fields of a \<open>MessageBoard\<close> object, its two tables, the instances table it
  reads, and the logs of the requests it sent to the daemon and to the ledger.
  \<open>delayed\<close> holds the failed actions with a positive \<open>delay\<close>, which a timer pushes
  back onto the queue later.
\<close>

record mb_state =
  leases :: "lease list"
  last_watched_ledger :: int
  sashi_instances :: "sashi_instance list"
  expiryList :: "expiry_item list"
  activeInstanceCount :: int
  lastValidatedLedgerIndex :: int
  queue :: "action list"
  delayed :: "action list"
  applyFeeUpliftment :: bool
  feeUpliftment :: int
  cli_calls :: "cli_call list"
  submitted :: "ledger_tx list"

text \<open>
  \<open>cfg.xrpl.address\<close> (also the host client's account), \<open>cfg.xrpl.leaseAmount\<close>,
  \<open>cfg.xrpl.affordableExtraFee\<close>, \<open>cfg.networking.ipv6.interface\<close>, and the host
  client's \<open>config.leaseAcquireWindow\<close>, \<open>config.momentSize\<close> and
  \<open>config.purchaserTargetPrice\<close>.
\<close>

record mb_cfg =
  xrpl_address :: string
  cfg_leaseAmount :: int
  affordableExtraFee :: int
  ipv6_interface :: string
  leaseAcquireWindow :: int
  momentSize :: int
  purchaserTargetPrice :: int

text \<open>
  What the world answers: the ledger's token lookup, the result code of a validated
  transaction, what a submission does (the hash the client records in the submission
  ref, and the error it throws, if any; the number is the count of submissions made
  before it), \<open>getMoment\<close>, the daemon's answers to create and destroy, the four
  readings of \<open>getCurrentUnixTime\<close> in \<open>handleAcquireLease\<close> in the order of the
  source, the instance time given to a created instance, and \<open>Date.now()\<close>.
\<close>

record mb_env =
  getLeaseByIndex :: "string \<Rightarrow> uri_token option"
  getTransactionValidatedResults :: "string \<Rightarrow> string option"
  submission :: "nat \<Rightarrow> ledger_tx \<Rightarrow> string option \<times> exn option"
  getMoment :: "int \<Rightarrow> int"
  createInstance_res :: "exn + create_res"
  destroyInstance_res :: "string option \<Rightarrow> exn option"
  instance_time :: int
  startingValidatedTime :: int
  time_after_wait :: int
  time_after_create :: int
  createdTimestamp :: int
  Date_now :: int

text \<open>
  The thresholds of appenv.js, in tenths: \<open>0.8\<close> and \<open>0.4\<close>. A comparison
  \<open>diff > window * 0.4\<close> of the source is written \<open>10 * diff > 4 * window\<close>.
\<close>

definition ACQUIRE_LEASE_TIMEOUT_THRESHOLD :: int where
  "ACQUIRE_LEASE_TIMEOUT_THRESHOLD = 8"

definition ACQUIRE_LEASE_WAIT_TIMEOUT_THRESHOLD :: int where
  "ACQUIRE_LEASE_WAIT_TIMEOUT_THRESHOLD = 4"

subsection \<open>The lease table\<close>

text \<open>
  Modelled from the spec: \<open>SqliteDatabase\<close> (sqlite-handler.js) is not part of the
  sources read here. \<open>getValues\<close> with a criterion is a filter, \<open>updateValue\<close> changes
  the rows that meet the criterion, \<open>insertValue\<close> appends a row, \<open>deleteValues\<close>
  removes the rows that meet the criterion. The methods of \<open>MessageBoard\<close> below call
  them as the source does. \<open>getLeaseTxHash\<close> and \<open>getLeaseStatus\<close> read row \<open>0\<close> of
  the result, which is undefined when there is none.
\<close>

definition getLeaseTxHash :: "lease list \<Rightarrow> string \<Rightarrow> string option" where
  "getLeaseTxHash rows name =
     (case filter (\<lambda>l. lease_container_name l = name) rows of
        [] \<Rightarrow> None | l # _ \<Rightarrow> Some (tx_hash l))"

definition getLeaseStatus :: "lease list \<Rightarrow> string option \<Rightarrow> LeaseStatus option" where
  "getLeaseStatus rows h =
     (case filter (\<lambda>l. Some (tx_hash l) = h) rows of
        [] \<Rightarrow> None | l # _ \<Rightarrow> Some (lease_status l))"

definition updateLeaseStatus :: "string option \<Rightarrow> LeaseStatus \<Rightarrow> lease list \<Rightarrow> lease list" where
  "updateLeaseStatus h st rows =
     map (\<lambda>l. if Some (tx_hash l) = h then l\<lparr>lease_status := st\<rparr> else l) rows"

definition createLeaseRecord :: "string \<Rightarrow> string \<Rightarrow> string \<Rightarrow> int \<Rightarrow> lease list \<Rightarrow> lease list" where
  "createLeaseRecord h tenantAddress name moments rows =
     rows @ [\<lparr>timestamp = 0, tx_hash = h, tenant_xrp_address = tenantAddress,
              life_moments = moments, lease_container_name = name,
              created_on_ledger = None, lease_status = ACQUIRING\<rparr>]"

definition updateAcquiredRecord :: "string \<Rightarrow> int \<Rightarrow> int \<Rightarrow> lease list \<Rightarrow> lease list" where
  "updateAcquiredRecord h ledgerIndex ts rows =
     map (\<lambda>l. if tx_hash l = h
               then l\<lparr>created_on_ledger := Some ledgerIndex, lease_status := ACQUIRED, timestamp := ts\<rparr>
               else l) rows"

definition updateLeaseData :: "string \<Rightarrow> LeaseStatus \<Rightarrow> int \<Rightarrow> lease list \<Rightarrow> lease list" where
  "updateLeaseData h st moments rows =
     map (\<lambda>l. if tx_hash l = h then l\<lparr>lease_status := st, life_moments := moments\<rparr> else l) rows"

definition deleteLeaseRecord :: "string option \<Rightarrow> lease list \<Rightarrow> lease list" where
  "deleteLeaseRecord h rows = filter (\<lambda>l. Some (tx_hash l) \<noteq> h) rows"

definition updateLastIndexRecord :: "int \<Rightarrow> mb_state \<Rightarrow> mb_state" where
  "updateLastIndexRecord ledger_idx s = s\<lparr>last_watched_ledger := ledger_idx\<rparr>"

definition getExpiryTimestamp :: "mb_cfg \<Rightarrow> int \<Rightarrow> int \<Rightarrow> int" where
  "getExpiryTimestamp cfg created moments = created + moments * momentSize cfg"

definition addToExpiryList :: "string \<Rightarrow> string \<Rightarrow> string \<Rightarrow> int \<Rightarrow> mb_state \<Rightarrow> mb_state" where
  "addToExpiryList h name tenantAddress ts s =
     s\<lparr>expiryList := expiryList s @
          [\<lparr>txHash = h, containerName = name, tenant = tenantAddress, expiryTimestamp = ts\<rparr>]\<rparr>"

subsection \<open>The transaction queue\<close>

text \<open>
  \<open>#queueAction(action, maxAttempts = 5, delay = 0)\<close>. The lock around the push is
  free whenever a handler runs to completion before the next one starts, which is how
  the handlers are composed here.
\<close>

definition queueAction :: "callback \<Rightarrow> nat \<Rightarrow> nat \<Rightarrow> mb_state \<Rightarrow> mb_state" where
  "queueAction cb maxAtt d s =
     s\<lparr>queue := queue s @
          [\<lparr>callback = cb, submissionRefs = [], attempts = 0, maxAttempts = maxAtt, delay = d\<rparr>]\<rparr>"

text \<open>\<open>#prepareHostClientFunctionOptions\<close>: the \<open>feeUplift\<close> option, when there is one.\<close>

definition prepareHostClientFunctionOptions :: "mb_state \<Rightarrow> int option" where
  "prepareHostClientFunctionOptions s =
     (if applyFeeUpliftment s then Some (feeUpliftment s) else None)"

text \<open>\<open>submissionRefs.refs ??= [{}]\<close> (or \<open>[{}, {}]\<close>), and \<open>refs[i]\<close>.\<close>

definition init_refs :: "nat \<Rightarrow> string option list \<Rightarrow> string option list" where
  "init_refs n refs = (if refs = [] then replicate n None else refs)"

definition ref_at :: "string option list \<Rightarrow> nat \<Rightarrow> string option" where
  "ref_at refs i = (if i < length refs then refs ! i else None)"

text \<open>
  The check that opens every callback: the hash recorded in the ref is truthy, and the
  ledger reports the transaction validated with code \<open>tesSUCCESS\<close>.
\<close>

definition confirmed :: "mb_env \<Rightarrow> string option \<Rightarrow> bool" where
  "confirmed env r =
     (case r of None \<Rightarrow> False
      | Some h \<Rightarrow> h \<noteq> [] \<and> getTransactionValidatedResults env h = Some ''tesSUCCESS'')"

text \<open>
  One call of the host client that submits \<open>tx\<close>, with \<open>{ submissionRef: refs[i] }\<close>
  when \<open>i\<close> is given. The call is logged, the hash is recorded in the ref, and the
  error thrown (if any) is returned.
\<close>

definition submit ::
  "mb_env \<Rightarrow> ledger_tx \<Rightarrow> nat option \<Rightarrow> string option list \<Rightarrow> mb_state
     \<Rightarrow> exn option \<times> string option list \<times> mb_state" where
  "submit env tx i refs s =
     (let res = submission env (length (submitted s)) tx;
          refs' = (case i of None \<Rightarrow> refs
                   | Some k \<Rightarrow> (case fst res of None \<Rightarrow> refs | Some h \<Rightarrow> refs[k := Some h]))
      in (snd res, refs', s\<lparr>submitted := submitted s @ [tx]\<rparr>))"

text \<open>The callback of \<open>recreateLeaseOffer\<close> (lines 1229 to 1277).\<close>

definition recreateLeaseOffer_callback ::
  "mb_cfg \<Rightarrow> mb_env \<Rightarrow> string \<Rightarrow> int \<Rightarrow> string option \<Rightarrow> bool \<Rightarrow> string option list \<Rightarrow> mb_state
     \<Rightarrow> exn option \<times> string option list \<times> mb_state" where
  "recreateLeaseOffer_callback cfg env uriTokenId leaseIdx outboundIp noLeaseRecord refs s =
     (let refs0 = init_refs 2 refs;
          retry1 = \<not> confirmed env (ref_at refs0 0);
          leaseTxHash = getLeaseTxHash (leases s) uriTokenId;
          st = getLeaseStatus (leases s) leaseTxHash;
          step1 =
            (if retry1 \<and> (noLeaseRecord \<or> st = Some DESTROYED \<or> st = Some FAILED \<or> st = Some SASHI_TIMEOUT)
             then
               (case submit env (ExpireLease uriTokenId) (Some 0) refs0 s of
                  (Some e, refs1, s1) \<Rightarrow> (Some e, refs1, s1)
                | (None, refs1, s1) \<Rightarrow>
                    (None, refs1,
                     if \<not> noLeaseRecord
                     then s1\<lparr>leases := updateLeaseStatus leaseTxHash BURNED (leases s1)\<rparr>
                     else s1))
             else (None, refs0, s))
      in case step1 of
           (Some e, refs1, s1) \<Rightarrow> (Some e, refs1, s1)
         | (None, refs1, s1) \<Rightarrow>
             let retry2 = \<not> confirmed env (ref_at refs1 1) in
             if retry2 \<and> (noLeaseRecord \<or> getLeaseStatus (leases s1) leaseTxHash = Some BURNED)
             then
               let amount = (if cfg_leaseAmount cfg \<noteq> 0 then cfg_leaseAmount cfg
                             else purchaserTargetPrice cfg)
               in (case submit env (OfferLease leaseIdx amount outboundIp) None refs1 s1 of
                     (Some e, refs2, s2) \<Rightarrow> (Some e, refs2, s2)
                   | (None, refs2, s2) \<Rightarrow>
                       (None, refs2,
                        if \<not> noLeaseRecord
                        then s2\<lparr>leases := deleteLeaseRecord leaseTxHash (leases s2)\<rparr>
                        else s2))
             else (None, refs1, s1))"

text \<open>The callback queued by \<open>handleAcquireLease\<close> on success (lines 1368 to 1409).\<close>

definition acquireSuccess_callback ::
  "mb_env \<Rightarrow> string \<Rightarrow> string \<Rightarrow> create_res \<Rightarrow> outbound_ip option \<Rightarrow> string option \<Rightarrow> int \<Rightarrow> int
     \<Rightarrow> string option list \<Rightarrow> mb_state \<Rightarrow> exn option \<times> string option list \<times> mb_state" where
  "acquireSuccess_callback env refId tenantAddress createRes outb msgKey ledgerIdx created refs s =
     (let refs0 = init_refs 2 refs;
          step1 =
            (if \<not> confirmed env (ref_at refs0 0)
             then submit env (UpdateRegInfo (activeInstanceCount s)) (Some 0) refs0 s
             else (None, refs0, s))
      in case step1 of
           (Some e, refs1, s1) \<Rightarrow> (Some e, refs1, s1)
         | (None, refs1, s1) \<Rightarrow>
             if \<not> confirmed env (ref_at refs1 1)
             then
               (case submit env
                       (AcquireSuccess refId tenantAddress (res_name createRes) (res_ip createRes)
                          (map_option ip_address outb) msgKey)
                       (Some 1) refs1 s1 of
                  (Some e, refs2, s2) \<Rightarrow> (Some e, refs2, s2)
                | (None, refs2, s2) \<Rightarrow>
                    (None, refs2,
                     s2\<lparr>leases := updateAcquiredRecord refId ledgerIdx created (leases s2)\<rparr>))
             else (None, refs1, s1))"

text \<open>
  The callbacks with one submission ref. Each starts with the check of \<open>refs[0]\<close> and
  returns at once when the recorded transaction is confirmed.
\<close>

definition single_callback ::
  "mb_env \<Rightarrow> callback \<Rightarrow> string option list \<Rightarrow> mb_state
     \<Rightarrow> exn option \<times> string option list \<times> mb_state" where
  "single_callback env cb refs s =
     (let refs0 = init_refs 1 refs in
      if confirmed env (ref_at refs0 0) then (None, refs0, s)
      else
        (case cb of
           ExpireInstanceCb \<Rightarrow>
             submit env (UpdateRegInfo (activeInstanceCount s)) (Some 0) refs0 s
         | PruneInstanceRefundCb h owner amount \<Rightarrow>
             submit env (RefundTenant h owner amount) (Some 0) refs0 s
         | PruneLeaseRefundCb st h owner amount \<Rightarrow>
             (if st = ACQUIRING
              then submit env (RefundTenant h owner amount) (Some 0) refs0 s
              else (None, refs0, s))
         | PruneRegInfoCb n \<Rightarrow>
             (if activeInstanceCount s \<noteq> n
              then submit env (UpdateRegInfo n) (Some 0) refs0 (s\<lparr>activeInstanceCount := n\<rparr>)
              else (None, refs0, s))
         | AcquireErrorCb refId tenantAddress amount e \<Rightarrow>
             (case submit env
                     (AcquireError refId tenantAddress amount (content_or e ''invalid_acquire_lease''))
                     (Some 0) refs0 s of
                (_, refs1, s1) \<Rightarrow> (None, refs1, s1))
         | ExtendSuccessCb refId tenantAddress expiryMoment \<Rightarrow>
             submit env (ExtendSuccess refId tenantAddress expiryMoment) (Some 0) refs0 s
         | ExtendErrorCb refId tenantAddress e amount \<Rightarrow>
             submit env
               (ExtendError refId tenantAddress (content_or e ''invalid_extend_lease'') amount)
               (Some 0) refs0 s
         | _ \<Rightarrow> (None, refs0, s)))"

text \<open>\<open>action.callback(action.submissionRefs)\<close>.\<close>

definition run_callback ::
  "mb_cfg \<Rightarrow> mb_env \<Rightarrow> callback \<Rightarrow> string option list \<Rightarrow> mb_state
     \<Rightarrow> exn option \<times> string option list \<times> mb_state" where
  "run_callback cfg env cb refs s =
     (case cb of
        RecreateLeaseOfferCb uriTokenId leaseIdx outboundIp noLeaseRecord \<Rightarrow>
          recreateLeaseOffer_callback cfg env uriTokenId leaseIdx outboundIp noLeaseRecord refs s
      | AcquireSuccessCb refId tenantAddress createRes outb msgKey ledgerIdx created \<Rightarrow>
          acquireSuccess_callback env refId tenantAddress createRes outb msgKey ledgerIdx created refs s
      | _ \<Rightarrow> single_callback env cb refs s)"

text \<open>
  One turn of the loop of \<open>#processConcurrencyQueue\<close>, on the pair of \<open>toKeep\<close> and the
  state.
\<close>

definition process_action ::
  "mb_cfg \<Rightarrow> mb_env \<Rightarrow> action \<Rightarrow> action list \<times> mb_state \<Rightarrow> action list \<times> mb_state" where
  "process_action cfg env a acc =
     (case run_callback cfg env (callback a) (submissionRefs a) (snd acc) of
        (None, refs', s') \<Rightarrow>
          (fst acc, s'\<lparr>applyFeeUpliftment := False, feeUpliftment := 0\<rparr>)
      | (Some e, refs', s') \<Rightarrow>
          if attempts a < maxAttempts a then
            let a' = a\<lparr>submissionRefs := refs', attempts := attempts a + 1\<rparr>;
                s'' = (if affordableExtraFee cfg > 0 \<and> e_status e = Some ''TOOK_LONG''
                       then s'\<lparr>applyFeeUpliftment := True,
                               feeUpliftment :=
                                 (affordableExtraFee cfg * int (attempts a')) div int (maxAttempts a')\<rparr>
                       else s')
            in if delay a' > 0 then (fst acc, s''\<lparr>delayed := delayed s'' @ [a']\<rparr>)
               else (fst acc @ [a'], s'')
          else (fst acc, s'))"

definition processConcurrencyQueue :: "mb_cfg \<Rightarrow> mb_env \<Rightarrow> mb_state \<Rightarrow> mb_state" where
  "processConcurrencyQueue cfg env s =
     (let r = fold (process_action cfg env) (queue s) ([], s)
      in (snd r)\<lparr>queue := fst r\<rparr>)"

subsection \<open>Calls to the daemon and the lease re-offer\<close>

text \<open>
  Modelled from the spec: \<open>SashiCLI\<close> (sashi-cli.js) is not part of the sources read
  here. A create request that succeeds adds a row to the daemon's table and a destroy
  request that succeeds removes the rows of that name; a request that fails throws the
  daemon's error. Every request is logged.
\<close>

definition sashiCli_createInstance ::
  "mb_env \<Rightarrow> string \<Rightarrow> string \<Rightarrow> string \<Rightarrow> mb_state \<Rightarrow> (exn + create_res) \<times> mb_state" where
  "sashiCli_createInstance env name ipv6 iface s =
     (let s1 = s\<lparr>cli_calls := cli_calls s @ [CliCreate name ipv6 iface]\<rparr> in
      case createInstance_res env of
        Inl e \<Rightarrow> (Inl e, s1)
      | Inr res \<Rightarrow>
          (Inr res,
           s1\<lparr>sashi_instances := sashi_instances s1 @
                 [\<lparr>inst_name = res_name res, inst_time = instance_time env\<rparr>]\<rparr>))"

definition sashiCli_destroyInstance ::
  "mb_env \<Rightarrow> string option \<Rightarrow> mb_state \<Rightarrow> exn option \<times> mb_state" where
  "sashiCli_destroyInstance env name s =
     (let s1 = s\<lparr>cli_calls := cli_calls s @ [CliDestroy name]\<rparr> in
      case destroyInstance_res env name of
        Some e \<Rightarrow> (Some e, s1)
      | None \<Rightarrow>
          (None, s1\<lparr>sashi_instances :=
                      filter (\<lambda>i. Some (inst_name i) \<noteq> name) (sashi_instances s1)\<rparr>))"

text \<open>\<open>recreateLeaseOffer(uriTokenId, leaseIndex, outboundIP, noLeaseRecord = false)\<close>.\<close>

definition recreateLeaseOffer :: "string \<Rightarrow> int \<Rightarrow> string option \<Rightarrow> bool \<Rightarrow> mb_state \<Rightarrow> mb_state" where
  "recreateLeaseOffer uriTokenId leaseIdx outboundIp noLeaseRecord s =
     queueAction (RecreateLeaseOfferCb uriTokenId leaseIdx outboundIp noLeaseRecord) 5 0 s"

text \<open>\<open>destroyInstance(containerName, leaseIndex, outboundIP)\<close> of \<open>MessageBoard\<close>.\<close>

definition destroyInstance ::
  "mb_env \<Rightarrow> string \<Rightarrow> int \<Rightarrow> string option \<Rightarrow> mb_state \<Rightarrow> exn option \<times> mb_state" where
  "destroyInstance env name leaseIdx outboundIp s =
     (case sashiCli_destroyInstance env (Some name) s of
        (Some e, s1) \<Rightarrow> (Some e, s1)
      | (None, s1) \<Rightarrow>
          let leaseTxHash = getLeaseTxHash (leases s1) name;
              s2 = s1\<lparr>leases := updateLeaseStatus leaseTxHash DESTROYED (leases s1)\<rparr>
          in (None, recreateLeaseOffer name leaseIdx outboundIp False s2))"

subsection \<open>The acquire handler\<close>

text \<open>The fields of the \<open>AcquireLease\<close> event that the handler reads.\<close>

record acquire_event =
  acquireRefId :: string
  acq_uriTokenId :: string
  acq_leaseAmount :: int
  acq_tenant :: string
  host :: string
  acq_LedgerIndex :: int
  messageKey :: "string option"

text \<open>
  The \<open>catch\<close> block of \<open>handleAcquireLease\<close> (lines 1413 to 1442), given the values
  of \<open>requestValidated\<close>, \<open>createRes\<close> (set or not), \<open>leaseIndex\<close> and
  \<open>instanceOutboundIPAddress\<close> at the throw. \<open>e.content.instance_name\<close> throws when
  \<open>e.content\<close> is undefined, a throw that leaves the handler. The result is the
  error that leaves the handler, if any, and the state.
\<close>

definition acquire_catch ::
  "mb_env \<Rightarrow> acquire_event \<Rightarrow> bool \<Rightarrow> bool \<Rightarrow> int \<Rightarrow> string option \<Rightarrow> exn \<Rightarrow> mb_state
     \<Rightarrow> exn option \<times> mb_state" where
  "acquire_catch env r requestValidated created leaseIdx outboundIp e s =
     (let s1 = (if requestValidated
                then s\<lparr>leases := updateLeaseStatus (Some (acquireRefId r)) FAILED (leases s)\<rparr>
                else s);
          destroy = (created \<or> e_type e = Some ''initiate_error'')
      in if destroy \<and> e_content e = Undefined then (Some TypeError, s1)
         else
           let s2 = (if destroy
                     then snd (sashiCli_destroyInstance env
                                 (case e_content e of Obj n \<Rightarrow> Some n | _ \<Rightarrow> None) s1)
                     else s1);
               s3 = (if leaseIdx \<ge> 0
                     then recreateLeaseOffer (acq_uriTokenId r) leaseIdx outboundIp False s2
                     else s2)
           in (None,
               queueAction (AcquireErrorCb (acquireRefId r) (acq_tenant r) (acq_leaseAmount r) e) 5 0 s3))"

text \<open>
  \<open>handleAcquireLease\<close>. The lease update lock is free (handlers run one after the
  other) and \<open>sashiCli.wait()\<close> returns; the time it took is the difference of the
  first two clock readings.
\<close>

definition handleAcquireLease ::
  "mb_cfg \<Rightarrow> mb_env \<Rightarrow> acquire_event \<Rightarrow> mb_state \<Rightarrow> exn option \<times> mb_state" where
  "handleAcquireLease cfg env r s =
     (if host r \<noteq> xrpl_address cfg
      then acquire_catch env r False False (-1) None (Message ''Invalid host in the lease aquire.'') s
      else
        let s1 = updateLastIndexRecord (acq_LedgerIndex r) s in
        case getLeaseByIndex env (acq_uriTokenId r) of
          None \<Rightarrow>
            acquire_catch env r False False (-1) None
              (Message ''Could not find the uriToken for lease acquire request.'') s1
        | Some uriToken \<Rightarrow>
            if Owner uriToken \<noteq> acq_tenant r
            then acquire_catch env r False False (-1) None
                   (Message ''Could not find the uriToken for lease acquire request.'') s1
            else
              let outboundIp = map_option ip_address (outboundIP uriToken) in
              if acq_leaseAmount r \<noteq> leaseAmount uriToken
              then acquire_catch env r False False (-1) outboundIp
                     (Message ''URIToken embedded lease amount and acquire lease amount does not match.'') s1
              else
                let leaseIdx = leaseIndex uriToken;
                    moments = 1;
                    name = acq_uriTokenId r;
                    s2 = s1\<lparr>leases := createLeaseRecord (acquireRefId r) (acq_tenant r) name moments (leases s1)\<rparr>;
                    diff = time_after_wait env - startingValidatedTime env
                in
                if 10 * diff > leaseAcquireWindow cfg * ACQUIRE_LEASE_WAIT_TIMEOUT_THRESHOLD
                then
                  (None,
                   recreateLeaseOffer (acq_uriTokenId r) leaseIdx outboundIp False
                     (s2\<lparr>leases := updateLeaseStatus (Some (acquireRefId r)) SASHI_TIMEOUT (leases s2)\<rparr>))
                else
                  let ipv6 = (case outboundIP uriToken of None \<Rightarrow> ''-''
                              | Some ob \<Rightarrow> if family ob = 6 then ip_address ob else ''-'');
                      iface = (case outboundIP uriToken of None \<Rightarrow> ''-''
                               | Some ob \<Rightarrow> if family ob = 6 then ipv6_interface cfg else ''-'')
                  in
                  (case sashiCli_createInstance env name ipv6 iface s2 of
                     (Inl e, s3) \<Rightarrow> acquire_catch env r True False leaseIdx outboundIp e s3
                   | (Inr createRes, s3) \<Rightarrow>
                       let diff2 = time_after_create env - startingValidatedTime env in
                       if 10 * diff2 > leaseAcquireWindow cfg * ACQUIRE_LEASE_TIMEOUT_THRESHOLD
                       then
                         (case destroyInstance env (res_name createRes) leaseIdx outboundIp
                                 (s3\<lparr>leases := updateLeaseStatus (Some (acquireRefId r)) SASHI_TIMEOUT (leases s3)\<rparr>) of
                            (Some e, s4) \<Rightarrow> acquire_catch env r True True leaseIdx outboundIp e s4
                          | (None, s4) \<Rightarrow> (None, s4))
                       else
                         let currentLedgerIndex = lastValidatedLedgerIndex s3;
                             created = createdTimestamp env;
                             s4 = addToExpiryList (acquireRefId r) (res_name createRes) (acq_tenant r)
                                    (getExpiryTimestamp cfg created moments) s3;
                             s5 = s4\<lparr>activeInstanceCount := activeInstanceCount s4 + 1\<rparr>
                         in (None,
                             queueAction
                               (AcquireSuccessCb (acquireRefId r) (acq_tenant r) createRes
                                  (outboundIP uriToken) (messageKey r) currentLedgerIndex created)
                               5 0 s5)))"

subsection \<open>The extend handler\<close>

record extend_event =
  extendRefId :: string
  ext_uriTokenId :: string
  ext_tenant :: string
  payment :: int
  Destination :: string
  ext_LedgerIndex :: int

text \<open>The \<open>catch\<close> block of \<open>handleExtendLease\<close>.\<close>

definition extend_catch :: "extend_event \<Rightarrow> exn \<Rightarrow> mb_state \<Rightarrow> mb_state" where
  "extend_catch r e s =
     queueAction (ExtendErrorCb (extendRefId r) (ext_tenant r) e (payment r)) 5 0 s"

text \<open>
  The loop over \<open>this.expiryList\<close> (lines 1501 to 1513): the first item of that
  container gets its timestamp moved; the result is the list and the new timestamp, or
  \<open>None\<close> when no item matches.
\<close>

fun extend_expiry :: "mb_cfg \<Rightarrow> string \<Rightarrow> int \<Rightarrow> expiry_item list \<Rightarrow> (expiry_item list \<times> int) option" where
  "extend_expiry cfg name m [] = None"
| "extend_expiry cfg name m (item # items) =
     (if containerName item = name
      then let ts = getExpiryTimestamp cfg (expiryTimestamp item) m
           in Some (item\<lparr>expiryTimestamp := ts\<rparr> # items, ts)
      else (case extend_expiry cfg name m items of
              None \<Rightarrow> None
            | Some res \<Rightarrow> Some (item # fst res, snd res)))"

text \<open>
  \<open>handleExtendLease\<close>. \<open>Math.floor(amount / leaseAmount)\<close> is \<open>div\<close>, the divisor
  being positive where it is computed.
\<close>

definition handleExtendLease :: "mb_cfg \<Rightarrow> mb_env \<Rightarrow> extend_event \<Rightarrow> mb_state \<Rightarrow> mb_state" where
  "handleExtendLease cfg env r s =
     (if Destination r \<noteq> xrpl_address cfg then extend_catch r (Message ''Invalid destination'') s
      else
        let hostingToken = getLeaseByIndex env (ext_uriTokenId r);
            s1 = updateLastIndexRecord (ext_LedgerIndex r) s
        in case hostingToken of
             None \<Rightarrow>
               extend_catch r
                 (Message ''The URIToken ownership verification was failed in the lease extension process'') s1
           | Some tok \<Rightarrow>
               if Owner tok \<noteq> ext_tenant r
               then extend_catch r
                      (Message ''The URIToken ownership verification was failed in the lease extension process'') s1
               else if leaseAmount tok \<le> 0
               then extend_catch r (Message ''Invalid per moment lease amount'') s1
               else
                 let extendingMoments = payment r div leaseAmount tok in
                 if extendingMoments < 1
                 then extend_catch r
                        (Message ''The transaction does not satisfy the minimum extendable moments'') s1
                 else
                   (case find (\<lambda>i. lease_status i = ACQUIRED \<or> lease_status i = EXTENDED)
                           (filter (\<lambda>l. lease_container_name l = token_index tok) (leases s1)) of
                      None \<Rightarrow>
                        extend_catch r
                          (Message ''No relevant instance was found to perform the lease extension'') s1
                    | Some instance \<Rightarrow>
                        (case extend_expiry cfg (lease_container_name instance) extendingMoments (expiryList s1) of
                           None \<Rightarrow>
                             extend_catch r
                               (Message ''No matching expiration record was found for the instance'') s1
                         | Some res \<Rightarrow>
                             queueAction
                               (ExtendSuccessCb (extendRefId r) (ext_tenant r) (getMoment env (snd res)))
                               5 0
                               (s1\<lparr>expiryList := fst res,
                                   leases := updateLeaseData (tx_hash instance) EXTENDED
                                               (life_moments instance + extendingMoments) (leases s1)\<rparr>))))"

subsection \<open>The orphan pruner\<close>

text \<open>\<^verbatim>\<open>const LEASE_ID_REG_EXP = /^[0-9A-F]{64}$/;\<close>\<close>

definition LEASE_ID_REG_EXP :: "string \<Rightarrow> bool" where
  "LEASE_ID_REG_EXP name =
     (length name = 64 \<and> list_all (\<lambda>c. c \<in> set ''0123456789ABCDEF'') name)"

text \<open>\<open>leases.findIndex(...)\<close> followed by \<open>leases.splice(leaseIndex, 1)\<close>.\<close>

fun splice_lease :: "string \<Rightarrow> lease list \<Rightarrow> (lease \<times> lease list) option" where
  "splice_lease name [] = None"
| "splice_lease name (l # ls) =
     (if lease_container_name l = name then Some (l, ls)
      else (case splice_lease name ls of
              None \<Rightarrow> None
            | Some res \<Rightarrow> Some (fst res, l # snd res)))"

text \<open>
  What both loops do once the orphan is gone and its row is marked: with a token that
  exists and is not the host's, the re-offer and then the refund action \<open>refund\<close>;
  otherwise the row of the lease is deleted.
\<close>

definition reoffer_or_delete ::
  "mb_cfg \<Rightarrow> uri_token option \<Rightarrow> string \<Rightarrow> lease \<Rightarrow> (uri_token \<Rightarrow> callback) \<Rightarrow> mb_state \<Rightarrow> mb_state" where
  "reoffer_or_delete cfg uriToken name l refund s =
     (case uriToken of
        None \<Rightarrow> s\<lparr>leases := deleteLeaseRecord (Some (tx_hash l)) (leases s)\<rparr>
      | Some tok \<Rightarrow>
          if Owner tok \<noteq> xrpl_address cfg
          then queueAction (refund tok) 5 0
                 (recreateLeaseOffer name (leaseIndex tok) (map_option ip_address (outboundIP tok)) False s)
          else s\<lparr>leases := deleteLeaseRecord (Some (tx_hash l)) (leases s)\<rparr>)"

text \<open>
  The body of the first loop of \<open>#pruneOrphanLeases\<close> (lines 871 to 930), on the
  local array \<open>leases\<close>, the local \<open>activeInstanceCount\<close> and the state. An error
  thrown by the daemon ends the turn (\<open>catch (e) { console.error(e) }\<close>).
\<close>

definition prune_instance ::
  "mb_cfg \<Rightarrow> mb_env \<Rightarrow> sashi_instance \<Rightarrow> lease list \<times> int \<times> mb_state \<Rightarrow> lease list \<times> int \<times> mb_state" where
  "prune_instance cfg env instance acc =
     (let ls = fst acc; cnt = fst (snd acc); s = snd (snd acc); name = inst_name instance in
      case splice_lease name ls of
        None \<Rightarrow>
          if LEASE_ID_REG_EXP name
          then (ls, cnt, snd (sashiCli_destroyInstance env (Some name) s))
          else (ls, cnt, s)
      | Some found \<Rightarrow>
          let l = fst found; ls' = snd found; uriToken = getLeaseByIndex env name in
          if (lease_status l = ACQUIRING \<or> lease_status l = DESTROYED)
             \<or> uriToken = None \<or> map_option Owner uriToken = Some (xrpl_address cfg)
          then
            (case sashiCli_destroyInstance env (Some name) s of
               (Some e, s1) \<Rightarrow> (ls', cnt, s1)
             | (None, s1) \<Rightarrow>
                 let leaseTxHash = getLeaseTxHash (leases s1) name;
                     s2 = s1\<lparr>leases := updateLeaseStatus leaseTxHash DESTROYED (leases s1)\<rparr>;
                     s3 = reoffer_or_delete cfg uriToken name l
                            (\<lambda>tok. PruneInstanceRefundCb (tx_hash l) (Owner tok) (leaseAmount tok)) s2
                 in (ls',
                     if lease_status l = ACQUIRED \<or> lease_status l = EXTENDED then cnt - 1 else cnt,
                     s3))
          else (ls', cnt, s))"

text \<open>The body of the second loop (lines 939 to 991), on the local count and the state.\<close>

definition prune_lease :: "mb_cfg \<Rightarrow> mb_env \<Rightarrow> lease \<Rightarrow> int \<times> mb_state \<Rightarrow> int \<times> mb_state" where
  "prune_lease cfg env l acc =
     (let cnt = fst acc; s = snd acc; name = lease_container_name l in
      if filter (\<lambda>i. inst_name i = name) (sashi_instances s) = []
      then
        let s1 = (if lease_status l \<noteq> BURNED
                  then s\<lparr>leases := updateLeaseStatus (getLeaseTxHash (leases s) name) DESTROYED (leases s)\<rparr>
                  else s);
            s2 = reoffer_or_delete cfg (getLeaseByIndex env name) name l
                   (\<lambda>tok. PruneLeaseRefundCb (lease_status l) (tx_hash l) (Owner tok) (leaseAmount tok)) s1
        in (if lease_status l = ACQUIRED \<or> lease_status l = EXTENDED then cnt - 1 else cnt, s2)
      else (cnt, s))"

text \<open>
  \<open>#pruneOrphanLeases(isStartup)\<close>. \<open>timeMargin\<close> is \<open>Date.now()\<close> minus
  \<open>1000 * (leaseAcquireWindow * 0.8 * 2)\<close> milliseconds; the instance time and the
  lease timestamp are compared with it as numbers.
\<close>

definition pruneOrphanLeases :: "mb_cfg \<Rightarrow> mb_env \<Rightarrow> bool \<Rightarrow> mb_state \<Rightarrow> mb_state" where
  "pruneOrphanLeases cfg env isStartup s =
     (let timeMargin = Date_now env
            - (1000 * (leaseAcquireWindow cfg * ACQUIRE_LEASE_TIMEOUT_THRESHOLD * 2)) div 10;
          ls = leases s;
          cnt = int (length (filter (\<lambda>r. lease_status r = ACQUIRED \<or> lease_status r = EXTENDED) ls));
          r1 = fold (prune_instance cfg env)
                 (filter (\<lambda>i. isStartup \<or> inst_time i < timeMargin) (sashi_instances s))
                 (ls, cnt, s);
          r2 = fold (prune_lease cfg env)
                 (filter (\<lambda>l. lease_status l = DESTROYED \<or> lease_status l = BURNED \<or>
                              (((isStartup \<and> lease_status l = ACQUIRING) \<or> timestamp l < timeMargin) \<and>
                               (lease_status l = ACQUIRING \<or> lease_status l = ACQUIRED \<or> lease_status l = EXTENDED)))
                    (fst r1))
                 (fst (snd r1), snd (snd r1))
      in queueAction (PruneRegInfoCb (fst r2)) 5 0 (snd r2))"

section \<open>Message board: the halt detector\<close>

text \<open>
  The fields \<open>#checkLedgersForHalt\<close> works on; times are in milliseconds.
  \<open>lastLedgerTime\<close> is undefined until the first \<open>Ledger\<close> event and \<open>#lastHaltedTime\<close>
  starts as \<open>null\<close>. The pending timeout is kept with the time it was set at and the
  halted duration it was computed from: its delay is \<open>haltedDuration * 0.25\<close>.
\<close>

record grace_timeout =
  set_at :: int
  haltedDuration :: int

record halt_state =
  lastLedgerTime :: "int option"
  xrplHalted :: bool
  lastHaltedTime :: "int option"
  graceTimeoutRef :: "grace_timeout option"

definition haltTimeout :: int where
  "haltTimeout = 60"

text \<open>\<open>#graceThreshold = 0.25\<close>, in hundredths.\<close>

definition graceThreshold :: int where
  "graceThreshold = 25"

text \<open>
  \<open>#checkLedgersForHalt\<close> at \<open>currentTime\<close>. With \<open>lastLedgerTime\<close> undefined the
  difference is \<open>NaN\<close> and both comparisons are false; \<open>currentTime - null\<close> is
  \<open>currentTime\<close>.
\<close>

definition checkLedgersForHalt :: "int \<Rightarrow> halt_state \<Rightarrow> halt_state" where
  "checkLedgersForHalt currentTime s =
     (case lastLedgerTime s of
        None \<Rightarrow> s
      | Some l \<Rightarrow>
          let lastLedgerTimeDifference = currentTime - l;
              s1 = (if lastLedgerTimeDifference \<ge> haltTimeout * 1000
                    then (if \<not> xrplHalted s
                          then s\<lparr>xrplHalted := True, lastHaltedTime := Some l\<rparr>
                          else if graceTimeoutRef s \<noteq> None
                          then s\<lparr>graceTimeoutRef := None\<rparr>
                          else s)
                    else s)
          in if xrplHalted s1 \<and> lastLedgerTimeDifference < haltTimeout * 1000 \<and> graceTimeoutRef s1 = None
             then s1\<lparr>graceTimeoutRef :=
                       Some \<lparr>set_at = currentTime,
                             haltedDuration = currentTime - (case lastHaltedTime s1 of None \<Rightarrow> 0 | Some h \<Rightarrow> h)\<rparr>\<rparr>
             else s1)"

text \<open>
  The timeout set by the detector runs its callback once the delay has passed:
  \<open>now - set_at \<ge> haltedDuration * 0.25\<close>.
\<close>

definition grace_due :: "int \<Rightarrow> grace_timeout \<Rightarrow> bool" where
  "grace_due now g = (100 * (now - set_at g) \<ge> haltedDuration g * graceThreshold)"

definition run_timers :: "int \<Rightarrow> halt_state \<Rightarrow> halt_state" where
  "run_timers now s =
     (case graceTimeoutRef s of
        None \<Rightarrow> s
      | Some g \<Rightarrow> if grace_due now g then s\<lparr>xrplHalted := False, graceTimeoutRef := None\<rparr> else s)"

text \<open>
  What happens to the detector: a \<open>Ledger\<close> event of the ledger client, or a turn of
  the clock scheduler. A timeout that is due runs before the event.
\<close>

datatype halt_event = Ledger int | Check int

definition event_time :: "halt_event \<Rightarrow> int" where
  "event_time e = (case e of Ledger t \<Rightarrow> t | Check t \<Rightarrow> t)"

definition halt_step :: "halt_event \<Rightarrow> halt_state \<Rightarrow> halt_state" where
  "halt_step e s =
     (case e of
        Ledger t \<Rightarrow> (run_timers t s)\<lparr>lastLedgerTime := Some t\<rparr>
      | Check t \<Rightarrow> checkLedgersForHalt t (run_timers t s))"

text \<open>The detector at time \<open>now\<close>, after the events up to then.\<close>

definition halt_at :: "int \<Rightarrow> halt_event list \<Rightarrow> halt_state \<Rightarrow> halt_state" where
  "halt_at now evs s = run_timers now (fold halt_step (filter (\<lambda>e. event_time e \<le> now) evs) s)"

definition halt_init :: halt_state where
  "halt_init = \<lparr>lastLedgerTime = None, xrplHalted = False, lastHaltedTime = None, graceTimeoutRef = None\<rparr>"

text \<open>
  Scenario S6, second by second up to \<open>n\<close> seconds: a \<open>Ledger\<close> event at every second
  from \<open>0\<close> to \<open>59\<close> and again from \<open>240\<close> on, and a turn of the scheduler every two
  seconds (\<open>SASHIMONO_SCHEDULER_INTERVAL_SECONDS\<close>), after the \<open>Ledger\<close> event of that
  second.
\<close>

definition s6_second :: "nat \<Rightarrow> halt_event list" where
  "s6_second k =
     (if k < 60 \<or> 240 \<le> k then [Ledger (1000 * int k)] else []) @
     (if 0 < k \<and> even k then [Check (1000 * int k)] else [])"

definition s6_events :: "nat \<Rightarrow> halt_event list" where
  "s6_events n = concat (map s6_second [0..<n])"

text \<open>
  States of the detector in that scenario: while the ledger ticks, the last tick being
  at 59 s; halted, at the first tick after the gap; and with the grace timeout set at
  240 s for a halt of 181 s.
\<close>

definition hs_ticking :: halt_state where
  "hs_ticking = \<lparr>lastLedgerTime = Some 59000, xrplHalted = False, lastHaltedTime = None,
                 graceTimeoutRef = None\<rparr>"

definition hs_halted :: halt_state where
  "hs_halted = \<lparr>lastLedgerTime = Some 240000, xrplHalted = True, lastHaltedTime = Some 59000,
                graceTimeoutRef = None\<rparr>"

definition hs_grace :: halt_state where
  "hs_grace = \<lparr>lastLedgerTime = Some 241000, xrplHalted = True, lastHaltedTime = Some 59000,
               graceTimeoutRef = Some \<lparr>set_at = 240000, haltedDuration = 181000\<rparr>\<rparr>"

section \<open>Message board: notions used in the properties, and concrete states\<close>

text \<open>
  The number of submission refs a callback sets up (\<open>refs ??= [{}]\<close> or
  \<open>refs ??= [{}, {}]\<close>), and the transactions submitted between two states.
\<close>

definition refs_count :: "callback \<Rightarrow> nat" where
  "refs_count cb =
     (case cb of
        RecreateLeaseOfferCb uriTokenId leaseIdx outboundIp noLeaseRecord \<Rightarrow> 2
      | AcquireSuccessCb refId tenantAddress createRes outb msgKey ledgerIdx created \<Rightarrow> 2
      | _ \<Rightarrow> 1)"

definition new_submissions :: "mb_state \<Rightarrow> mb_state \<Rightarrow> ledger_tx list" where
  "new_submissions s s' = drop (length (submitted s)) (submitted s')"

text \<open>A queue entry as \<open>#queueAction\<close> creates it, with the default arguments.\<close>

definition queued :: "callback \<Rightarrow> action" where
  "queued cb = \<lparr>callback = cb, submissionRefs = [], attempts = 0, maxAttempts = 5, delay = 0\<rparr>"

text \<open>
  The host \<open>rHOST\<close> with lease amount 2, moments of 3600 seconds and an acquire window
  of 160 seconds; the token \<open>T1\<close> of slot 0, sold to \<open>rTENANT\<close>; a world where the
  daemon and the ledger answer at once and without error, and where the ledger reports
  the transaction \<open>HASH1\<close> as validated with \<open>tesSUCCESS\<close>; and the message board before
  anything happened.
\<close>

definition mb_cfg0 :: mb_cfg where
  "mb_cfg0 = \<lparr>xrpl_address = ''rHOST'', cfg_leaseAmount = 2, affordableExtraFee = 10,
              ipv6_interface = ''eth0'', leaseAcquireWindow = 160, momentSize = 3600,
              purchaserTargetPrice = 2\<rparr>"

definition tokenT1 :: uri_token where
  "tokenT1 = \<lparr>token_index = ''T1'', Owner = ''rTENANT'', leaseIndex = 0, leaseAmount = 2,
              outboundIP = None\<rparr>"

definition mb_env0 :: mb_env where
  "mb_env0 = \<lparr>getLeaseByIndex = (\<lambda>i. if i = ''T1'' then Some tokenT1 else None),
              getTransactionValidatedResults = (\<lambda>h. if h = ''HASH1'' then Some ''tesSUCCESS'' else None),
              submission = (\<lambda>n tx. (Some ''HASH2'', None)),
              getMoment = (\<lambda>t. t div 3600),
              createInstance_res = Inr \<lparr>res_name = ''T1'', res_ip = ''host.example''\<rparr>,
              destroyInstance_res = (\<lambda>n. None),
              instance_time = 1000000,
              startingValidatedTime = 1000,
              time_after_wait = 1000,
              time_after_create = 1010,
              createdTimestamp = 1010,
              Date_now = 10000000\<rparr>"

definition mb_s0 :: mb_state where
  "mb_s0 = \<lparr>leases = [], last_watched_ledger = 100, sashi_instances = [], expiryList = [],
            activeInstanceCount = 0, lastValidatedLedgerIndex = 100, queue = [], delayed = [],
            applyFeeUpliftment = False, feeUpliftment = 0, cli_calls = [], submitted = []\<rparr>"

text \<open>The row of the lease \<open>ACQ1\<close> on \<open>T1\<close>, in a given status.\<close>

definition leaseT1 :: "LeaseStatus \<Rightarrow> lease" where
  "leaseT1 st = \<lparr>timestamp = 1010, tx_hash = ''ACQ1'', tenant_xrp_address = ''rTENANT'',
                 life_moments = 1, lease_container_name = ''T1'', created_on_ledger = Some 100,
                 lease_status = st\<rparr>"

text \<open>
  The acquire of \<open>T1\<close> by \<open>rTENANT\<close> (scenario S1); a world where the daemon is busy for
  66 seconds, more than 40 % of the window (scenario S2); and one where the create
  returns after 129 seconds, more than 80 % of it.
\<close>

definition acquireT1 :: acquire_event where
  "acquireT1 = \<lparr>acquireRefId = ''ACQ1'', acq_uriTokenId = ''T1'', acq_leaseAmount = 2,
                acq_tenant = ''rTENANT'', host = ''rHOST'', acq_LedgerIndex = 101,
                messageKey = None\<rparr>"

definition env_busy :: mb_env where
  "env_busy = mb_env0\<lparr>time_after_wait := 1066, time_after_create := 1070, createdTimestamp := 1070\<rparr>"

definition env_slow :: mb_env where
  "env_slow = mb_env0\<lparr>time_after_create := 1129, createdTimestamp := 1129\<rparr>"

text \<open>
  The message board with the lease of \<open>T1\<close> acquired (after scenario S1), and an extend
  of \<open>T1\<close> paying 5 for a lease amount of 2, and one paying 1.
\<close>

definition mb_acquired :: mb_state where
  "mb_acquired = mb_s0\<lparr>leases := [leaseT1 ACQUIRED],
                       sashi_instances := [\<lparr>inst_name = ''T1'', inst_time = 1000000\<rparr>],
                       expiryList := [\<lparr>txHash = ''ACQ1'', containerName = ''T1'', tenant = ''rTENANT'',
                                       expiryTimestamp = 4610\<rparr>],
                       activeInstanceCount := 1\<rparr>"

definition extendT1 :: "int \<Rightarrow> extend_event" where
  "extendT1 amount = \<lparr>extendRefId = ''EXT1'', ext_uriTokenId = ''T1'', ext_tenant = ''rTENANT'',
                      payment = amount, Destination = ''rHOST'', ext_LedgerIndex = 102\<rparr>"

text \<open>
  A failing submission that took too long; an action on its second attempt of five;
  the message board with the row of \<open>T1\<close> in a given status and no instance; and the
  same with the instance of \<open>T1\<close> still there.
\<close>

definition env_took_long :: mb_env where
  "env_took_long = mb_env0\<lparr>submission := (\<lambda>n tx. (Some ''HASH2'', Some (SubmitError ''TOOK_LONG'')))\<rparr>"

definition second_attempt :: action where
  "second_attempt = \<lparr>callback = ExpireInstanceCb, submissionRefs = [Some ''HASH3''], attempts = 1,
                      maxAttempts = 5, delay = 0\<rparr>"

definition mb_row :: "LeaseStatus \<Rightarrow> mb_state" where
  "mb_row st = mb_s0\<lparr>leases := [leaseT1 st]\<rparr>"

definition mb_row_instance :: "LeaseStatus \<Rightarrow> mb_state" where
  "mb_row_instance st = mb_s0\<lparr>leases := [leaseT1 st],
                             sashi_instances := [\<lparr>inst_name = ''T1'', inst_time = 1000000\<rparr>]\<rparr>"

text \<open>The row of the instance \<open>T1\<close> in the daemon's table.\<close>

definition instT1 :: sashi_instance where
  "instT1 = \<lparr>inst_name = ''T1'', inst_time = 1000000\<rparr>"

section \<open>Properties of the socket transport\<close>

lemma uint32_to_bytes_8:
  "uint32_to_bytes [a, b, c, d, e, f, g, h] x =
     [ucast (drop_bit 24 x AND 0xff), ucast (drop_bit 16 x AND 0xff),
      ucast (drop_bit 8 x AND 0xff), ucast (drop_bit 0 x AND 0xff), e, f, g, h]"
  by (simp add: uint32_to_bytes_def)

text \<open>
  On a connected socket, with both writes succeeding, \<open>send\<close> writes a header of eight
  bytes and then the message. The first four bytes are those of the length; the last
  four are the last four of the buffer as \<open>send\<close> found it.
\<close>

lemma send_header:
  assumes "data_socket ctx \<noteq> -1"
  shows "send [a, b, c, d, e, f, g, h] True True ctx message =
     (0, disconnect ctx,
      [Header [ucast (drop_bit 24 (of_nat (length message) :: 32 word) AND 0xff),
               ucast (drop_bit 16 (of_nat (length message) :: 32 word) AND 0xff),
               ucast (drop_bit 8 (of_nat (length message) :: 32 word) AND 0xff),
               ucast (drop_bit 0 (of_nat (length message) :: 32 word) AND 0xff), e, f, g, h],
       Body message])"
  using assms by (simp add: send_def uint32_to_bytes_8 Let_def)

text \<open>
  C7. Every response is preceded by an 8-byte header whose first four bytes hold the
  message length, big-endian, and whose remaining four bytes are zero. The code at a
  response of two bytes, sent from a stack frame whose eight bytes at \<open>length_buffer\<close>
  hold \<open>0xAA\<close>: the header is \<open>00 00 00 02 AA AA AA AA\<close>. The last four bytes are not
  zero, \<open>send\<close> never having written them.
\<close>

theorem send_reserved_bytes_not_zeroed:
  "send [0xAA, 0xAA, 0xAA, 0xAA, 0xAA, 0xAA, 0xAA, 0xAA] True True \<lparr>data_socket = 5\<rparr> ''{}''
     = (0, \<lparr>data_socket = -1\<rparr>, [Header [0, 0, 0, 2, 0xAA, 0xAA, 0xAA, 0xAA], Body ''{}''])"
  by (simp add: send_def uint32_to_bytes_def disconnect_def Let_def)

lemma long_request_length: "length long_request = 4097"
  by (simp add: long_request_def)

lemma long_request_within_cap: "length long_request \<le> DEFAULT_MAX_MSG_SIZE"
  by (simp add: long_request_length DEFAULT_MAX_MSG_SIZE_def)

text \<open>
  C8. A single JSON request of any length up to the 1 MiB cap is accepted and read in
  one receive, without truncation. The code at a request of 4097 bytes (below
  \<open>DEFAULT_MAX_MSG_SIZE\<close>): \<open>read_socket\<close> returns 4096, and the message that
  \<open>handle_message\<close> parses is the request without its last byte, the closing brace.
\<close>

theorem read_socket_truncates_long_request:
  "length long_request \<le> DEFAULT_MAX_MSG_SIZE \<and>
   fst (read_socket (Packet long_request) (replicate 4096 (CHR 0x00))) = 4096 \<and>
   message_view (read_socket (Packet long_request) (replicate 4096 (CHR 0x00))) = butlast long_request \<and>
   butlast long_request \<noteq> long_request"
proof -
  have "length (butlast long_request) \<noteq> length long_request"
    by (simp add: long_request_length)
  then have "butlast long_request \<noteq> long_request"
    by metis
  moreover have "fst (read_socket (Packet long_request) (replicate 4096 (CHR 0x00))) = 4096"
    by (simp add: read_socket_def BUFFER_SIZE_def long_request_length)
  moreover have "message_view (read_socket (Packet long_request) (replicate 4096 (CHR 0x00)))
      = take 4096 long_request"
    by (simp add: message_view_def read_socket_def BUFFER_SIZE_def long_request_length)
  moreover have "take 4096 long_request = butlast long_request"
    by (simp add: long_request_def butlast_append)
  ultimately show ?thesis
    using long_request_within_cap by simp
qed

section \<open>Properties of the port allocator\<close>

lemma select_ports_vacant:
  "vacant_ports s \<noteq> [] \<Longrightarrow>
   select_ports env s = (last (vacant_ports s), s\<lparr>last_port_assign_from_vacant := True\<rparr>)"
  by (simp add: select_ports_def)

lemma select_ports_empty:
  "vacant_ports s = [] \<Longrightarrow>
   select_ports env s =
     (next_ports (if last_port_assign_from_vacant s then max_ports env else last_assigned_ports s),
      s\<lparr>last_assigned_ports := (if last_port_assign_from_vacant s then max_ports env else last_assigned_ports s),
        last_port_assign_from_vacant := False\<rparr>)"
  by (simp add: select_ports_def Let_def)

lemma create_ok_shape:
  assumes "create_new_instance cfg env s name owner cid image_key = (Inr info, s')"
  shows "\<exists>uname pk. install_user_res env = Some uname \<and> create_contract_res env = Some pk \<and>
     assigned_ports info = fst (select_ports env s) \<and>
     s' = (let s1 = snd (select_ports env s);
               s4 = run (DockerCreate uname name) (run (CreateContract uname (get_user_contract_dir cfg uname name))
                      (run (InstallUser name (fst (select_ports env s))) s1));
               s5 = s4\<lparr>db := insert_hp_instance_row (db s4) info\<rparr>
           in if last_port_assign_from_vacant s5 then s5\<lparr>vacant_ports := butlast (vacant_ports s5)\<rparr>
              else s5\<lparr>last_assigned_ports := fst (select_ports env s)\<rparr>)"
  using assms
  by (auto simp: create_new_instance_def Let_def split: if_splits option.splits prod.splits)

lemma create_from_vacant:
  assumes "vacant_ports s \<noteq> []"
      and "create_new_instance cfg env s name owner cid image_key = (Inr info, s')"
  shows "assigned_ports info = last (vacant_ports s) \<and> vacant_ports s' = butlast (vacant_ports s)
         \<and> last_assigned_ports s' = last_assigned_ports s"
  using create_ok_shape[OF assms(2)] assms(1)
  by (auto simp: select_ports_vacant run_def Let_def)

lemma create_advance:
  assumes "vacant_ports s = []"
      and "create_new_instance cfg env s name owner cid image_key = (Inr info, s')"
  shows "assigned_ports info = next_ports (if last_port_assign_from_vacant s then max_ports env else last_assigned_ports s)
       \<and> last_assigned_ports s' = assigned_ports info \<and> vacant_ports s' = []"
  using create_ok_shape[OF assms(2)] assms(1)
  by (auto simp: select_ports_empty run_def Let_def)

lemma destroy_pushes:
  assumes "is_container_exists (db s) name = Some info"
      and "gp_tcp_port_start (assigned_ports info) \<noteq> 0"
      and "assigned_ports info \<notin> set (vacant_ports s)"
      and "destroy_container cfg env s name = (Inr (), s')"
  shows "vacant_ports s' = vacant_ports s @ [assigned_ports info] \<and> db s' = delete_hp_instance (db s) name"
  using assms
  by (auto simp: destroy_container_def Let_def run_def split: if_splits)

lemmas hp_eval = create_new_instance_def destroy_container_def get_instance_def is_container_exists_def
  get_allocated_instance_count_def insert_hp_instance_row_def delete_hp_instance_def select_ports_def
  next_ports_def run_def Let_def cfg0_def env_ok_def p1_def row1_def row2_def s_one_def s_destroyed_def
  s_recreated_def s_start_def s_first_def p_legacy_def s_legacy_def s_failed_def s_unwritten_def

lemma destroy_s_one: "destroy_container cfg0 env_ok s_one ''T1'' = (Inr (), s_destroyed)"
  by (simp add: hp_eval)

lemma create_s_destroyed:
  "create_new_instance cfg0 env_ok s_destroyed ''T1'' ''ed99'' ''c2'' ''img--x'' = (Inr row2, s_recreated)"
  by (simp add: hp_eval)

lemma create_s_start:
  "create_new_instance cfg0 env_ok s_start ''T1'' ''ed99'' ''c2'' ''img--x'' = (Inr row2, s_first)"
  by (simp add: hp_eval)

text \<open>
  C9, as amended. A destroy that succeeds, of an instance whose tuple has a non-zero
  \<open>gp_tcp_port_start\<close> and is not yet in the vacant list, appends that tuple to the
  vacant list. A create that succeeds takes the last tuple of a non-empty vacant list
  and removes it; with an empty vacant list it takes the last assigned tuple (reloaded
  with \<open>get_max_ports\<close> when the previous assignment came from the vacant list) plus
  \<open>(1, 1, 2, 2)\<close> and records it as last assigned. So such a destroy followed by a create
  gives the freed tuple to the new instance and leaves the vacant list as it was.
\<close>

theorem ports_reuse:
  "(is_container_exists (db s) name = Some info \<and> gp_tcp_port_start (assigned_ports info) \<noteq> 0 \<and>
    assigned_ports info \<notin> set (vacant_ports s) \<and> destroy_container cfg env s name = (Inr (), sd)
      \<longrightarrow> vacant_ports sd = vacant_ports s @ [assigned_ports info]) \<and>
   (vacant_ports t \<noteq> [] \<and> create_new_instance cfg env' t name' owner cid image_key = (Inr info', t')
      \<longrightarrow> assigned_ports info' = last (vacant_ports t) \<and> vacant_ports t' = butlast (vacant_ports t)) \<and>
   (vacant_ports u = [] \<and> create_new_instance cfg env' u name' owner cid image_key = (Inr info_u, u')
      \<longrightarrow> assigned_ports info_u =
            next_ports (if last_port_assign_from_vacant u then max_ports env' else last_assigned_ports u) \<and>
          last_assigned_ports u' = assigned_ports info_u) \<and>
   (is_container_exists (db s) name = Some info \<and> gp_tcp_port_start (assigned_ports info) \<noteq> 0 \<and>
    assigned_ports info \<notin> set (vacant_ports s) \<and> destroy_container cfg env s name = (Inr (), sd) \<and>
    create_new_instance cfg env' sd name' owner cid image_key = (Inr info'', sr)
      \<longrightarrow> assigned_ports info'' = assigned_ports info \<and> vacant_ports sr = vacant_ports s)"
proof (intro conjI impI)
  assume a: "is_container_exists (db s) name = Some info \<and> gp_tcp_port_start (assigned_ports info) \<noteq> 0 \<and>
    assigned_ports info \<notin> set (vacant_ports s) \<and> destroy_container cfg env s name = (Inr (), sd)"
  then show "vacant_ports sd = vacant_ports s @ [assigned_ports info]"
    using destroy_pushes by blast
next
  assume a: "vacant_ports t \<noteq> [] \<and> create_new_instance cfg env' t name' owner cid image_key = (Inr info', t')"
  then show "assigned_ports info' = last (vacant_ports t)" and "vacant_ports t' = butlast (vacant_ports t)"
    using create_from_vacant by blast+
next
  assume a: "vacant_ports u = [] \<and> create_new_instance cfg env' u name' owner cid image_key = (Inr info_u, u')"
  then show "assigned_ports info_u =
            next_ports (if last_port_assign_from_vacant u then max_ports env' else last_assigned_ports u)"
    and "last_assigned_ports u' = assigned_ports info_u"
    using create_advance by blast+
next
  assume a: "is_container_exists (db s) name = Some info \<and> gp_tcp_port_start (assigned_ports info) \<noteq> 0 \<and>
    assigned_ports info \<notin> set (vacant_ports s) \<and> destroy_container cfg env s name = (Inr (), sd) \<and>
    create_new_instance cfg env' sd name' owner cid image_key = (Inr info'', sr)"
  then have v: "vacant_ports sd = vacant_ports s @ [assigned_ports info]"
    using destroy_pushes by blast
  then have "vacant_ports sd \<noteq> []" by simp
  with a have "assigned_ports info'' = last (vacant_ports sd) \<and> vacant_ports sr = butlast (vacant_ports sd)"
    using create_from_vacant by blast
  with v show "assigned_ports info'' = assigned_ports info" and "vacant_ports sr = vacant_ports s"
    by simp_all
qed

text \<open>
  The theorem at \<open>s_one\<close> (destroy of \<open>T1\<close>, then create) and at \<open>s_start\<close> (first
  create, nothing vacant).
\<close>

theorem ports_reuse_witness:
  "vacant_ports s_destroyed = vacant_ports s_one @ [p1] \<and>
   assigned_ports row2 = last (vacant_ports s_destroyed) \<and>
   vacant_ports s_recreated = butlast (vacant_ports s_destroyed) \<and>
   assigned_ports row2 = next_ports (max_ports env_ok) \<and>
   last_assigned_ports s_first = assigned_ports row2 \<and>
   assigned_ports row2 = p1 \<and>
   vacant_ports s_recreated = vacant_ports s_one"
proof -
  have h1: "is_container_exists (db s_one) ''T1'' = Some row1"
    by (simp add: hp_eval)
  have h2: "gp_tcp_port_start (assigned_ports row1) \<noteq> 0"
    by (simp add: hp_eval)
  have h3: "assigned_ports row1 \<notin> set (vacant_ports s_one)"
    by (simp add: hp_eval)
  have h4: "vacant_ports s_destroyed \<noteq> []"
    by (simp add: hp_eval)
  have h5: "vacant_ports s_start = []" "last_port_assign_from_vacant s_start"
    by (simp_all add: hp_eval)
  have h6: "assigned_ports row1 = p1"
    by (simp add: hp_eval)
  note inst = ports_reuse [where s = s_one and name = "''T1''" and info = row1 and cfg = cfg0
      and env = env_ok and sd = s_destroyed and t = s_destroyed and env' = env_ok
      and name' = "''T1''" and owner = "''ed99''" and cid = "''c2''" and image_key = "''img--x''"
      and info' = row2 and t' = s_recreated and u = s_start and info_u = row2 and u' = s_first
      and info'' = row2 and sr = s_recreated]
  from inst h1 h2 h3 h4 h5(1) destroy_s_one create_s_destroyed create_s_start
  have r: "vacant_ports s_destroyed = vacant_ports s_one @ [assigned_ports row1] \<and>
     assigned_ports row2 = last (vacant_ports s_destroyed) \<and>
     vacant_ports s_recreated = butlast (vacant_ports s_destroyed) \<and>
     assigned_ports row2 =
       next_ports (if last_port_assign_from_vacant s_start then max_ports env_ok
                   else last_assigned_ports s_start) \<and>
     last_assigned_ports s_first = assigned_ports row2 \<and>
     assigned_ports row2 = assigned_ports row1 \<and>
     vacant_ports s_recreated = vacant_ports s_one"
    by blast
  from r [unfolded h5(2) [THEN eqTrueI] if_True h6] show ?thesis .
qed

text \<open>
  C9 as stated fails at \<open>s_legacy\<close>: the destroy of \<open>T2\<close>, whose tuple is
  \<open>(22862, 26202, 0, 0)\<close>, succeeds and pushes another tuple, with general-purpose ports
  computed from the peer port, and the create that follows takes that tuple.
\<close>

theorem legacy_destroy_counterexample:
  "fst (destroy_container cfg0 env_ok s_legacy ''T2'') = Inr () \<and>
   vacant_ports (snd (destroy_container cfg0 env_ok s_legacy ''T2''))
     = [\<lparr>peer_port = 26202, user_port = 22862, gp_tcp_port_start = 36527, gp_udp_port_start = 39066\<rparr>] \<and>
   vacant_ports (snd (destroy_container cfg0 env_ok s_legacy ''T2'')) \<noteq> vacant_ports s_legacy @ [p_legacy] \<and>
   map_sum id assigned_ports
     (fst (create_new_instance cfg0 env_ok (snd (destroy_container cfg0 env_ok s_legacy ''T2''))
             ''T2'' ''ed99'' ''c2'' ''img''))
     = Inr \<lparr>peer_port = 26202, user_port = 22862, gp_tcp_port_start = 36527, gp_udp_port_start = 39066\<rparr>"
  by (simp add: hp_eval)


lemma create_fail_shape:
  assumes "create_new_instance cfg env s name owner cid image_key = (Inl e, s')"
      and "e = INSTANCE_ERROR \<or> e = DB_WRITE_ERROR"
  shows "\<exists>uname. install_user_res env = Some uname \<and>
     s' = (snd (select_ports env s))\<lparr>commands := commands s @
            [InstallUser name (fst (select_ports env s)),
             CreateContract uname (get_user_contract_dir cfg uname name)] @
            (if e = DB_WRITE_ERROR
             then [DockerCreate uname name, DockerRemove uname name,
                   UninstallUser uname (fst (select_ports env s)) name]
             else if create_contract_res env = None
             then [UninstallUser uname (fst (select_ports env s)) name]
             else [DockerCreate uname name, UninstallUser uname (fst (select_ports env s)) name])\<rparr>"
  using assms
  by (auto simp: create_new_instance_def run_def Let_def select_ports_def
           split: if_splits option.splits prod.splits)

text \<open>
  C10, as amended. When \<open>create_new_instance\<close> returns \<open>instance_error\<close> or
  \<open>db_write_error\<close>, the user had been installed and the last command run is its
  uninstall, preceded by \<open>docker rm\<close> when the insert failed; the instances table and the
  vacant list are as before the call; and \<open>last_assigned_ports\<close> is as before the call,
  unless the vacant list was empty and the previous assignment came from it: then it
  holds what \<open>get_max_ports\<close> stored.
\<close>

theorem failed_create_rolls_back:
  assumes "create_new_instance cfg env s name owner cid image_key = (Inl e, s')"
      and "e = INSTANCE_ERROR \<or> e = DB_WRITE_ERROR"
  shows "db s' = db s \<and> vacant_ports s' = vacant_ports s \<and>
     last_assigned_ports s' =
       (if vacant_ports s = [] \<and> last_port_assign_from_vacant s then max_ports env
        else last_assigned_ports s) \<and>
     (\<exists>uname. install_user_res env = Some uname \<and>
        commands s' = commands s @
          [InstallUser name (fst (select_ports env s)),
           CreateContract uname (get_user_contract_dir cfg uname name)] @
          (if e = DB_WRITE_ERROR
           then [DockerCreate uname name, DockerRemove uname name,
                 UninstallUser uname (fst (select_ports env s)) name]
           else if create_contract_res env = None
           then [UninstallUser uname (fst (select_ports env s)) name]
           else [DockerCreate uname name, UninstallUser uname (fst (select_ports env s)) name]))"
proof -
  from create_fail_shape [OF assms] obtain uname where
    u: "install_user_res env = Some uname" and
    s': "s' = (snd (select_ports env s))\<lparr>commands := commands s @
            [InstallUser name (fst (select_ports env s)),
             CreateContract uname (get_user_contract_dir cfg uname name)] @
            (if e = DB_WRITE_ERROR
             then [DockerCreate uname name, DockerRemove uname name,
                   UninstallUser uname (fst (select_ports env s)) name]
             else if create_contract_res env = None
             then [UninstallUser uname (fst (select_ports env s)) name]
             else [DockerCreate uname name, UninstallUser uname (fst (select_ports env s)) name])\<rparr>"
    by blast
  have "db s' = db s" "vacant_ports s' = vacant_ports s"
    "last_assigned_ports s' =
       (if vacant_ports s = [] \<and> last_port_assign_from_vacant s then max_ports env
        else last_assigned_ports s)"
    by (simp_all add: s' select_ports_def Let_def)
  moreover have "commands s' = commands s @
          [InstallUser name (fst (select_ports env s)),
           CreateContract uname (get_user_contract_dir cfg uname name)] @
          (if e = DB_WRITE_ERROR
           then [DockerCreate uname name, DockerRemove uname name,
                 UninstallUser uname (fst (select_ports env s)) name]
           else if create_contract_res env = None
           then [UninstallUser uname (fst (select_ports env s)) name]
           else [DockerCreate uname name, UninstallUser uname (fst (select_ports env s)) name])"
    by (simp add: s')
  ultimately show ?thesis using u by blast
qed

lemma create_fails_container:
  "create_new_instance cfg0 (env_ok\<lparr>create_container_ok := False\<rparr>) s_start ''T1'' ''ed99'' ''c2'' ''img''
     = (Inl INSTANCE_ERROR, s_failed)"
  by (simp add: hp_eval)

lemma create_fails_insert:
  "create_new_instance cfg0 (env_ok\<lparr>insert_row_ok := False\<rparr>) s_destroyed ''T1'' ''ed99'' ''c2'' ''img''
     = (Inl DB_WRITE_ERROR, s_unwritten)"
  by (simp add: hp_eval)

text \<open>The theorem at \<open>s_destroyed\<close>, the insert failing.\<close>

theorem failed_create_rolls_back_witness:
  "db s_unwritten = db s_destroyed \<and> vacant_ports s_unwritten = vacant_ports s_destroyed \<and>
   last_assigned_ports s_unwritten = last_assigned_ports s_destroyed \<and>
   commands s_unwritten = commands s_destroyed @
     [InstallUser ''T1'' p1, CreateContract ''sashi2'' ''/home/sashi2/T1'',
      DockerCreate ''sashi2'' ''T1'', DockerRemove ''sashi2'' ''T1'', UninstallUser ''sashi2'' p1 ''T1'']"
proof -
  have h: "DB_WRITE_ERROR = INSTANCE_ERROR \<or> DB_WRITE_ERROR = DB_WRITE_ERROR"
    by simp
  from failed_create_rolls_back [OF create_fails_insert h]
  show ?thesis
    by (simp add: hp_eval)
qed

text \<open>
  C10 as stated fails at \<open>s_start\<close> with \<open>docker create\<close> failing: the call returns
  \<open>instance_error\<close> and \<open>last_assigned_ports\<close> has changed.
\<close>

theorem failed_create_last_assigned_counterexample:
  "fst (create_new_instance cfg0 (env_ok\<lparr>create_container_ok := False\<rparr>) s_start ''T1'' ''ed99'' ''c2'' ''img'')
     = Inl INSTANCE_ERROR \<and>
   last_assigned_ports
     (snd (create_new_instance cfg0 (env_ok\<lparr>create_container_ok := False\<rparr>) s_start ''T1'' ''ed99'' ''c2'' ''img''))
     \<noteq> last_assigned_ports s_start"
  by (simp add: hp_eval)


section \<open>Properties of the transaction queue\<close>

lemmas mb_eval = mb_cfg0_def tokenT1_def mb_env0_def mb_s0_def leaseT1_def acquireT1_def env_busy_def
  env_slow_def mb_acquired_def extendT1_def env_took_long_def second_attempt_def mb_row_def
  mb_row_instance_def queued_def

lemmas cb_eval = run_callback_def single_callback_def recreateLeaseOffer_callback_def
  acquireSuccess_callback_def submit_def init_refs_def ref_at_def confirmed_def
  getLeaseTxHash_def getLeaseStatus_def updateLeaseStatus_def deleteLeaseRecord_def
  updateAcquiredRecord_def content_or_def e_content_def e_status_def e_type_def Let_def


lemma run_took_long:
  "run_callback mb_cfg0 env_took_long (callback second_attempt) (submissionRefs second_attempt) mb_s0
     = (Some (SubmitError ''TOOK_LONG''), [Some ''HASH2''], mb_s0\<lparr>submitted := [UpdateRegInfo 0]\<rparr>)"
  by (simp add: cb_eval mb_eval)

lemma run_ok:
  "run_callback mb_cfg0 mb_env0 (callback second_attempt) (submissionRefs second_attempt) mb_s0
     = (None, [Some ''HASH2''], mb_s0\<lparr>submitted := [UpdateRegInfo 0]\<rparr>)"
  by (simp add: cb_eval mb_eval)



lemma confirmed_nonempty: "confirmed env (ref_at refs i) \<Longrightarrow> refs \<noteq> []"
  by (auto simp: confirmed_def ref_at_def)

lemma init_refs_confirmed: "confirmed env (ref_at refs i) \<Longrightarrow> init_refs n refs = refs"
  by (simp add: init_refs_def confirmed_nonempty)

lemma single_confirmed:
  assumes "refs_count cb = 1" and "confirmed env (ref_at refs 0)"
  shows "run_callback cfg env cb refs s = (None, refs, s)"
  using assms
  by (cases cb) (simp_all add: run_callback_def single_callback_def refs_count_def init_refs_confirmed)

lemma submit_new:
  "submit env tx i refs s = (e, refs', s') \<Longrightarrow> submitted s' = submitted s @ [tx]"
  by (auto simp: submit_def Let_def)

lemma submit_new2:
  "submitted (snd (snd (submit env tx i refs s))) = submitted s @ [tx]"
  by (simp add: submit_def Let_def)

lemma recreate_confirmed:
  assumes "confirmed env (ref_at refs 0)"
  shows "ExpireLease uriTokenId \<notin> set (new_submissions s
           (snd (snd (run_callback cfg env (RecreateLeaseOfferCb uriTokenId leaseIdx outboundIp noLeaseRecord) refs s))))"
  using assms
  by (auto simp: run_callback_def recreateLeaseOffer_callback_def init_refs_confirmed new_submissions_def
        Let_def submit_def split: prod.splits option.splits if_splits)

lemma recreate_both_confirmed:
  assumes "confirmed env (ref_at refs 0)" and "confirmed env (ref_at refs 1)"
  shows "run_callback cfg env (RecreateLeaseOfferCb uriTokenId leaseIdx outboundIp noLeaseRecord) refs s = (None, refs, s)"
  using assms
  by (simp add: run_callback_def recreateLeaseOffer_callback_def init_refs_confirmed Let_def)

lemma acquire_first_confirmed:
  assumes "confirmed env (ref_at refs 0)"
  shows "UpdateRegInfo n \<notin> set (new_submissions s
           (snd (snd (run_callback cfg env (AcquireSuccessCb refId tenantAddress createRes outb msgKey ledgerIdx created) refs s))))"
  using assms
  by (auto simp: run_callback_def acquireSuccess_callback_def init_refs_confirmed new_submissions_def
        Let_def submit_def split: prod.splits option.splits if_splits)

lemma ref_at_update_other: "i \<noteq> j \<Longrightarrow> ref_at (refs[i := x]) j = ref_at refs j"
  by (simp add: ref_at_def)

lemma submit_keeps_other_ref:
  "j \<noteq> i \<Longrightarrow> ref_at (fst (snd (submit env tx (Some i) refs s))) j = ref_at refs j"
  by (simp add: submit_def Let_def ref_at_def split: option.splits)

lemma acquire_second_confirmed:
  assumes "confirmed env (ref_at refs 1)"
  shows "new_submissions s
           (snd (snd (run_callback cfg env (AcquireSuccessCb refId tenantAddress createRes outb msgKey ledgerIdx created) refs s)))
         = [] \<or>
         new_submissions s
           (snd (snd (run_callback cfg env (AcquireSuccessCb refId tenantAddress createRes outb msgKey ledgerIdx created) refs s)))
         = [UpdateRegInfo (activeInstanceCount s)]"
proof -
  have r: "init_refs 2 refs = refs"
    using assms by (rule init_refs_confirmed)
  show ?thesis
  proof (cases "confirmed env (ref_at refs 0)")
    case True
    then show ?thesis
      using assms by (simp add: run_callback_def acquireSuccess_callback_def r new_submissions_def)
  next
    case False
    obtain e refs1 s1 where sub: "submit env (UpdateRegInfo (activeInstanceCount s)) (Some 0) refs s = (e, refs1, s1)"
      by (cases "submit env (UpdateRegInfo (activeInstanceCount s)) (Some 0) refs s") auto
    have k: "ref_at refs1 1 = ref_at refs 1"
      using submit_keeps_other_ref [of 1 0 env "UpdateRegInfo (activeInstanceCount s)" refs s] sub by simp
    have n: "submitted s1 = submitted s @ [UpdateRegInfo (activeInstanceCount s)]"
      using submit_new [OF sub] .
    show ?thesis
      using False assms k n sub
      by (cases e) (simp_all add: run_callback_def acquireSuccess_callback_def r new_submissions_def)
  qed
qed

lemma acquire_both_confirmed:
  assumes "confirmed env (ref_at refs 0)" and "confirmed env (ref_at refs 1)"
  shows "run_callback cfg env (AcquireSuccessCb refId tenantAddress createRes outb msgKey ledgerIdx created) refs s
           = (None, refs, s)"
  using assms
  by (simp add: run_callback_def acquireSuccess_callback_def init_refs_confirmed Let_def)

lemma both_confirmed:
  assumes "confirmed env (ref_at refs 0)" and "confirmed env (ref_at refs 1)"
  shows "run_callback cfg env cb refs s = (None, refs, s)"
proof (cases "refs_count cb = 1")
  case True
  then show ?thesis using assms(1) by (simp add: single_confirmed)
next
  case False
  then show ?thesis
    using assms
    by (cases cb) (simp_all add: refs_count_def recreate_both_confirmed acquire_both_confirmed)
qed





section \<open>Properties of the halt detector\<close>

lemma s6_at_120: "xrplHalted (halt_at 120000 (s6_events 300) halt_init)"
  by code_simp

lemma s6_at_240:
  "graceTimeoutRef (halt_at 240000 (s6_events 300) halt_init)
     = Some \<lparr>set_at = 240000, haltedDuration = 181000\<rparr>"
  by code_simp

lemma s6_at_285: "xrplHalted (halt_at 285000 (s6_events 300) halt_init)"
  by code_simp

lemma s6_at_285250: "\<not> xrplHalted (halt_at 285250 (s6_events 300) halt_init)"
  by code_simp


lemmas hs_eval = hs_ticking_def hs_halted_def hs_grace_def haltTimeout_def graceThreshold_def




section \<open>Properties of the acquire handler\<close>

lemmas handler_eval = handleAcquireLease_def acquire_catch_def destroyInstance_def recreateLeaseOffer_def
  queueAction_def sashiCli_createInstance_def sashiCli_destroyInstance_def createLeaseRecord_def
  updateLastIndexRecord_def addToExpiryList_def getExpiryTimestamp_def handleExtendLease_def
  extend_catch_def updateLeaseData_def ACQUIRE_LEASE_TIMEOUT_THRESHOLD_def
  ACQUIRE_LEASE_WAIT_TIMEOUT_THRESHOLD_def processConcurrencyQueue_def process_action_def
  prune_instance_def prune_lease_def pruneOrphanLeases_def reoffer_or_delete_def LEASE_ID_REG_EXP_def


lemma getLeaseStatus_updated:
  "getLeaseStatus (updateLeaseStatus (Some h) st (rows @ [row\<lparr>tx_hash := h\<rparr>])) (Some h) = Some st"
  by (induction rows) (auto simp: getLeaseStatus_def updateLeaseStatus_def)

lemma getLeaseStatus_created:
  "getLeaseStatus (updateLeaseStatus (Some h) st (createLeaseRecord h a n m rows)) (Some h) = Some st"
  by (induction rows) (auto simp: getLeaseStatus_def updateLeaseStatus_def createLeaseRecord_def)

lemma getLeaseTxHash_created:
  "filter (\<lambda>l. lease_container_name l = n) rows = [] \<Longrightarrow>
   getLeaseTxHash (updateLeaseStatus x st (createLeaseRecord h a n m rows)) n = Some h"
  by (induction rows) (auto simp: getLeaseTxHash_def updateLeaseStatus_def createLeaseRecord_def split: if_splits)

lemma getLeaseStatus_twice:
  "getLeaseStatus (updateLeaseStatus (Some h) st (updateLeaseStatus x st' (createLeaseRecord h a n m rows))) (Some h) = Some st"
  by (induction rows) (auto simp: getLeaseStatus_def updateLeaseStatus_def createLeaseRecord_def)






section \<open>Properties of the extend handler\<close>

lemma div_lt_one: "(0::int) < a \<Longrightarrow> p < a \<Longrightarrow> p div a < 1"
  using pos_imp_zdiv_pos_iff [of a p] by linarith

lemma div_ge_one: "(0::int) < a \<Longrightarrow> \<not> p div a < 1 \<Longrightarrow> a \<le> p"
  using pos_imp_zdiv_pos_iff [of a p] by linarith

lemma extend_success_needs_amount:
  assumes "callback (last (queue (handleExtendLease cfg env r s))) = ExtendSuccessCb refId tenantAddress m"
  shows "\<exists>tok. getLeaseByIndex env (ext_uriTokenId r) = Some tok \<and> 0 < leaseAmount tok \<and>
           leaseAmount tok \<le> payment r"
  using assms
  by (auto simp: handleExtendLease_def extend_catch_def queueAction_def Let_def div_ge_one
           split: option.splits if_splits)

lemma extend_small_payment:
  assumes "getLeaseByIndex env (ext_uriTokenId r) = Some tok" and "payment r < leaseAmount tok"
  shows "(\<exists>e. queue (handleExtendLease cfg env r s)
             = queue s @ [queued (ExtendErrorCb (extendRefId r) (ext_tenant r) e (payment r))]) \<and>
         leases (handleExtendLease cfg env r s) = leases s \<and>
         expiryList (handleExtendLease cfg env r s) = expiryList s"
  using assms
  by (auto simp: handleExtendLease_def extend_catch_def queueAction_def queued_def Let_def
        updateLastIndexRecord_def div_lt_one)



lemma extend_5:
  "handleExtendLease mb_cfg0 mb_env0 (extendT1 5) mb_acquired =
     mb_acquired\<lparr>last_watched_ledger := 102,
                  expiryList := [\<lparr>txHash = ''ACQ1'', containerName = ''T1'', tenant = ''rTENANT'',
                                  expiryTimestamp = 11810\<rparr>],
                  leases := [(leaseT1 EXTENDED)\<lparr>life_moments := 3\<rparr>],
                  queue := [queued (ExtendSuccessCb ''EXT1'' ''rTENANT'' 3)]\<rparr>"
  by (simp add: handler_eval mb_eval)




section \<open>Properties of the orphan pruner\<close>

lemma reoffer_or_delete_queue:
  "map callback (drop (length (queue s)) (queue (reoffer_or_delete cfg uriToken name l refund s))) =
     (case uriToken of None \<Rightarrow> []
      | Some tok \<Rightarrow> if Owner tok \<noteq> xrpl_address cfg
          then [RecreateLeaseOfferCb name (leaseIndex tok) (map_option ip_address (outboundIP tok)) False,
                refund tok]
          else [])"
  by (simp add: reoffer_or_delete_def recreateLeaseOffer_def queueAction_def split: option.splits)

lemma prune_lease_queue:
  assumes "filter (\<lambda>i. inst_name i = lease_container_name l) (sashi_instances s) = []"
  shows "map callback (drop (length (queue s)) (queue (snd (prune_lease cfg env l (cnt, s))))) =
     (case getLeaseByIndex env (lease_container_name l) of None \<Rightarrow> []
      | Some tok \<Rightarrow> if Owner tok \<noteq> xrpl_address cfg
          then [RecreateLeaseOfferCb (lease_container_name l) (leaseIndex tok)
                  (map_option ip_address (outboundIP tok)) False,
                PruneLeaseRefundCb (lease_status l) (tx_hash l) (Owner tok) (leaseAmount tok)]
          else [])"
proof -
  define s1 where "s1 = (if lease_status l \<noteq> BURNED
                  then s\<lparr>leases := updateLeaseStatus (getLeaseTxHash (leases s) (lease_container_name l)) DESTROYED (leases s)\<rparr>
                  else s)"
  have q: "queue s1 = queue s"
    by (simp add: s1_def)
  have "snd (prune_lease cfg env l (cnt, s)) =
      reoffer_or_delete cfg (getLeaseByIndex env (lease_container_name l)) (lease_container_name l) l
        (\<lambda>tok. PruneLeaseRefundCb (lease_status l) (tx_hash l) (Owner tok) (leaseAmount tok)) s1"
    using assms by (simp add: prune_lease_def Let_def s1_def)
  then show ?thesis
    using reoffer_or_delete_queue [of s1 cfg "getLeaseByIndex env (lease_container_name l)"
        "lease_container_name l" l "\<lambda>tok. PruneLeaseRefundCb (lease_status l) (tx_hash l) (Owner tok) (leaseAmount tok)"]
    by (simp add: q)
qed

lemma prune_instance_queue:
  assumes "splice_lease (inst_name i) ls = Some (l, ls')"
      and "(lease_status l = ACQUIRING \<or> lease_status l = DESTROYED)
             \<or> getLeaseByIndex env (inst_name i) = None
             \<or> map_option Owner (getLeaseByIndex env (inst_name i)) = Some (xrpl_address cfg)"
      and "destroyInstance_res env (Some (inst_name i)) = None"
  shows "map callback (drop (length (queue s)) (queue (snd (snd (prune_instance cfg env i (ls, cnt, s)))))) =
     (case getLeaseByIndex env (inst_name i) of None \<Rightarrow> []
      | Some tok \<Rightarrow> if Owner tok \<noteq> xrpl_address cfg
          then [RecreateLeaseOfferCb (inst_name i) (leaseIndex tok)
                  (map_option ip_address (outboundIP tok)) False,
                PruneInstanceRefundCb (tx_hash l) (Owner tok) (leaseAmount tok)]
          else []) \<and>
     cli_calls (snd (snd (prune_instance cfg env i (ls, cnt, s)))) = cli_calls s @ [CliDestroy (Some (inst_name i))]"
proof -
  define s1 where "s1 = s\<lparr>cli_calls := cli_calls s @ [CliDestroy (Some (inst_name i))],
                         sashi_instances := filter (\<lambda>j. Some (inst_name j) \<noteq> Some (inst_name i)) (sashi_instances s)\<rparr>"
  define s2 where "s2 = s1\<lparr>leases := updateLeaseStatus (getLeaseTxHash (leases s1) (inst_name i)) DESTROYED (leases s1)\<rparr>"
  have d: "sashiCli_destroyInstance env (Some (inst_name i)) s = (None, s1)"
    by (simp add: sashiCli_destroyInstance_def assms(3) s1_def Let_def)
  have q: "queue s2 = queue s" "cli_calls s2 = cli_calls s @ [CliDestroy (Some (inst_name i))]"
    by (simp_all add: s2_def s1_def)
  have "snd (snd (prune_instance cfg env i (ls, cnt, s))) =
      reoffer_or_delete cfg (getLeaseByIndex env (inst_name i)) (inst_name i) l
        (\<lambda>tok. PruneInstanceRefundCb (tx_hash l) (Owner tok) (leaseAmount tok)) s2"
    using assms(1,2) by (simp add: prune_instance_def Let_def d s2_def)
  moreover have "cli_calls (reoffer_or_delete cfg (getLeaseByIndex env (inst_name i)) (inst_name i) l
        (\<lambda>tok. PruneInstanceRefundCb (tx_hash l) (Owner tok) (leaseAmount tok)) s2) = cli_calls s2"
    by (simp add: reoffer_or_delete_def recreateLeaseOffer_def queueAction_def split: option.splits)
  ultimately show ?thesis
    using reoffer_or_delete_queue [of s2 cfg "getLeaseByIndex env (inst_name i)"
        "inst_name i" l "\<lambda>tok. PruneInstanceRefundCb (tx_hash l) (Owner tok) (leaseAmount tok)"]
    by (simp add: q)
qed

lemma lease_refund_callback:
  "new_submissions s (snd (snd (run_callback cfg env (PruneLeaseRefundCb st h owner amount) [] s)))
     = (if st = ACQUIRING then [RefundTenant h owner amount] else [])"
  by (simp add: run_callback_def single_callback_def init_refs_def ref_at_def confirmed_def
        submit_def new_submissions_def Let_def)

lemma instance_refund_callback:
  "new_submissions s (snd (snd (run_callback cfg env (PruneInstanceRefundCb h owner amount) [] s)))
     = [RefundTenant h owner amount]"
  by (simp add: run_callback_def single_callback_def init_refs_def ref_at_def confirmed_def
        submit_def new_submissions_def Let_def)



lemma splice_T1: "splice_lease (inst_name instT1) [leaseT1 st] = Some (leaseT1 st, [])"
  by (simp add: instT1_def leaseT1_def)




end
